theory Spec2Isabelle
  imports Complex_Main
begin

section \<open>Python values\<close>

text \<open>
  The engine is Python. Every exception the modelled code can raise is a value of
  \<open>py_error\<close>; a computation that may raise has type \<open>py_error + 'a\<close>.
  \<open>Exception msg\<close> is the request handlers' own \<^verbatim>\<open>raise Exception(msg)\<close>.
\<close>

datatype py_error =
    IndexError | KeyError | ValueError | TypeError | AttributeError
  | OverflowError | OperationalError | Exception string

definition bnd :: "py_error + 'a \<Rightarrow> ('a \<Rightarrow> py_error + 'b) \<Rightarrow> py_error + 'b" where
  "bnd m f = (case m of Inl e \<Rightarrow> Inl e | Inr v \<Rightarrow> f v)"

text \<open>
  A Python float is a real number or NaN; infinities and rounding are outside the model.
\<close>

datatype float = Float real | NaN

text \<open>
  Request bodies are JSON. A dict is an association list (keys distinct); \<open>JInt\<close> and
  \<open>JFloat\<close> are Python's \<^verbatim>\<open>int\<close> and \<^verbatim>\<open>float\<close>.
\<close>

datatype json =
    JNull | JBool bool | JInt int | JFloat float | JStr string
  | JList "json list" | JObj "(string \<times> json) list"

subsection \<open>String methods\<close>

text \<open>\<^verbatim>\<open>str.lower\<close> on the ASCII letters; other bytes are left as they are.\<close>

definition lower_char :: "char \<Rightarrow> char" where
  "lower_char c =
     (case map_of (zip ''ABCDEFGHIJKLMNOPQRSTUVWXYZ'' ''abcdefghijklmnopqrstuvwxyz'') c of
        Some d \<Rightarrow> d
      | None \<Rightarrow> c)"

definition lower :: "string \<Rightarrow> string" where
  "lower s = map lower_char s"

text \<open>\<^verbatim>\<open>str.strip()\<close>: the ASCII whitespace characters are removed at both ends.\<close>

definition is_space :: "char \<Rightarrow> bool" where
  "is_space c = (let n = (of_char c :: nat) in (9 \<le> n \<and> n \<le> 13) \<or> (28 \<le> n \<and> n \<le> 32))"

definition strip :: "string \<Rightarrow> string" where
  "strip s = rev (dropWhile is_space (rev (dropWhile is_space s)))"

text \<open>\<^verbatim>\<open>s.split(sep)\<close> for a one-character separator: never an empty list.\<close>

fun split_on :: "char \<Rightarrow> string \<Rightarrow> string list" where
  "split_on sep [] = [[]]"
| "split_on sep (c # cs) =
     (if c = sep then [] # split_on sep cs
      else (case split_on sep cs of
              w # ws \<Rightarrow> (c # w) # ws
            | [] \<Rightarrow> [[c]]))"

text \<open>\<^verbatim>\<open>pat in s\<close> on strings.\<close>

fun contains :: "string \<Rightarrow> string \<Rightarrow> bool" where
  "contains pat [] = (pat = [])"
| "contains pat (c # cs) = (take (length pat) (c # cs) = pat \<or> contains pat cs)"

text \<open>\<^verbatim>\<open>s.replace(old, "")\<close> for a non-empty \<open>old\<close>: every occurrence, left to right.\<close>

function remove_all :: "string \<Rightarrow> string \<Rightarrow> string" where
  "remove_all old [] = []"
| "remove_all old (c # cs) =
     (if old \<noteq> [] \<and> take (length old) (c # cs) = old
      then remove_all old (drop (length old) (c # cs))
      else c # remove_all old cs)"
  by pat_completeness auto
termination
  by (relation "measure (\<lambda>(old, s). length s)") (auto simp: neq_Nil_conv)

text \<open>
  \<^verbatim>\<open>seq[i]\<close> for a non-negative index.
\<close>

definition item :: "'a list \<Rightarrow> nat \<Rightarrow> py_error + 'a" where
  "item xs i = (if i < length xs then Inr (xs ! i) else Inl IndexError)"

subsection \<open>Conversions\<close>

definition is_digit :: "char \<Rightarrow> bool" where
  "is_digit c = (let n = (of_char c :: nat) in 48 \<le> n \<and> n \<le> 57)"

definition digit :: "char \<Rightarrow> nat" where
  "digit c = (of_char c :: nat) - 48"

text \<open>
  Digits after the first one; Python allows one underscore between two digits.
\<close>

fun digits_from :: "nat \<Rightarrow> string \<Rightarrow> nat option" where
  "digits_from acc [] = Some acc"
| "digits_from acc [c] = (if is_digit c then Some (10 * acc + digit c) else None)"
| "digits_from acc (c # d # ds) =
     (if is_digit c then digits_from (10 * acc + digit c) (d # ds)
      else if c = CHR ''_'' \<and> is_digit d then digits_from (10 * acc + digit d) ds
      else None)"

definition digits :: "string \<Rightarrow> nat option" where
  "digits s = (case s of [] \<Rightarrow> None
               | c # cs \<Rightarrow> if is_digit c then digits_from (digit c) cs else None)"

text \<open>
  \<^verbatim>\<open>int(s)\<close> for a string: surrounding whitespace, an optional sign, decimal ASCII
  digits. \<open>None\<close> is Python's \<^verbatim>\<open>ValueError\<close>.
\<close>

definition int_of_str :: "string \<Rightarrow> int option" where
  "int_of_str s =
     (case strip s of
        [] \<Rightarrow> None
      | c # cs \<Rightarrow>
          if c = CHR ''-'' then map_option (\<lambda>n. - int n) (digits cs)
          else if c = CHR ''+'' then map_option int (digits cs)
          else map_option int (digits (c # cs)))"

text \<open>\<^verbatim>\<open>int(v)\<close> for a JSON value; a float is truncated towards zero.\<close>

definition py_int :: "json \<Rightarrow> py_error + int" where
  "py_int v =
     (case v of
        JInt n \<Rightarrow> Inr n
      | JBool b \<Rightarrow> Inr (if b then 1 else 0)
      | JFloat (Float r) \<Rightarrow> Inr (if r < 0 then - \<lfloor>- r\<rfloor> else \<lfloor>r\<rfloor>)
      | JFloat NaN \<Rightarrow> Inl ValueError
      | JStr s \<Rightarrow> (case int_of_str s of None \<Rightarrow> Inl ValueError | Some n \<Rightarrow> Inr n)
      | _ \<Rightarrow> Inl TypeError)"

text \<open>
  \<^verbatim>\<open>float(v)\<close> for a JSON value. Parsing a float literal from a string is Python's own;
  it is the parameter \<open>float_of_str\<close> (\<open>None\<close>: \<^verbatim>\<open>ValueError\<close>).
\<close>

definition py_float :: "(string \<Rightarrow> float option) \<Rightarrow> json \<Rightarrow> py_error + float" where
  "py_float float_of_str v =
     (case v of
        JInt n \<Rightarrow> Inr (Float (of_int n))
      | JBool b \<Rightarrow> Inr (Float (if b then 1 else 0))
      | JFloat f \<Rightarrow> Inr f
      | JStr s \<Rightarrow> (case float_of_str s of None \<Rightarrow> Inl ValueError | Some f \<Rightarrow> Inr f)
      | _ \<Rightarrow> Inl TypeError)"

text \<open>
  The Qt bindings take C \<^verbatim>\<open>int\<close> arguments: a Python integer outside 32 bits raises.
\<close>

definition c_int :: "int \<Rightarrow> py_error + int" where
  "c_int n = (if - 2147483648 \<le> n \<and> n \<le> 2147483647 then Inr n else Inl OverflowError)"

subsection \<open>Containers\<close>

text \<open>\<^verbatim>\<open>key in v\<close>: dict membership, substring test on a string, element test on a list.\<close>

definition py_in :: "string \<Rightarrow> json \<Rightarrow> py_error + bool" where
  "py_in k v =
     (case v of
        JObj d \<Rightarrow> Inr (map_of d k \<noteq> None)
      | JStr s \<Rightarrow> Inr (contains k s)
      | JList xs \<Rightarrow> Inr (JStr k \<in> set xs)
      | _ \<Rightarrow> Inl TypeError)"

text \<open>\<^verbatim>\<open>v[key]\<close> with a string key: only a dict can be indexed so.\<close>

definition py_getitem :: "json \<Rightarrow> string \<Rightarrow> py_error + json" where
  "py_getitem v k =
     (case v of
        JObj d \<Rightarrow> (case map_of d k of None \<Rightarrow> Inl KeyError | Some x \<Rightarrow> Inr x)
      | _ \<Rightarrow> Inl TypeError)"

text \<open>\<^verbatim>\<open>for x in v\<close>: list elements, dict keys, the characters of a string.\<close>

definition py_iter :: "json \<Rightarrow> py_error + json list" where
  "py_iter v =
     (case v of
        JList xs \<Rightarrow> Inr xs
      | JObj d \<Rightarrow> Inr (map (\<lambda>kv. JStr (fst kv)) d)
      | JStr s \<Rightarrow> Inr (map (\<lambda>c. JStr [c]) s)
      | _ \<Rightarrow> Inl TypeError)"

text \<open>A loop body that may raise, run over a list in order.\<close>

fun for_each :: "('a \<Rightarrow> py_error + 'b) \<Rightarrow> 'a list \<Rightarrow> py_error + 'b list" where
  "for_each f [] = Inr []"
| "for_each f (x # xs) = bnd (f x) (\<lambda>y. bnd (for_each f xs) (\<lambda>ys. Inr (y # ys)))"

section \<open>Raster symbology (\<^verbatim>\<open>raster/renderer.py\<close>)\<close>

subsection \<open>The rendering engine's objects\<close>

text \<open>
  The rendering engine (QGIS) is an external collaborator. Its objects are plain data here:
  a setter stores its argument, a getter reads it back.
\<close>

datatype ContrastEnhancementAlgorithm =
    NoEnhancement | StretchToMinimumMaximum | StretchAndClipToMinimumMaximum
  | ClipToMinimumMaximum | UserDefinedEnhancement

datatype Limits = Limits_None | MinMax | StdDev | CumulativeCut

datatype Gradient = BlackToWhite | WhiteToBlack

datatype ShaderType = Interpolated | Discrete | Exact

record QgsContrastEnhancement =
  contrastEnhancementAlgorithm :: ContrastEnhancementAlgorithm
  minimumValue :: float
  maximumValue :: float

record QgsColorRampShader =
  sourceColorRamp :: string
  colorRampType :: ShaderType

record QgsSingleBandGrayRenderer =
  grayBand :: int
  contrastEnhancement :: "QgsContrastEnhancement option"
  gradient :: Gradient
  grayLimits :: Limits

record QgsMultiBandColorRenderer =
  redBand :: int
  greenBand :: int
  blueBand :: int
  redContrastEnhancement :: "QgsContrastEnhancement option"
  greenContrastEnhancement :: "QgsContrastEnhancement option"
  blueContrastEnhancement :: "QgsContrastEnhancement option"
  multiLimits :: Limits

record QgsSingleBandPseudoColorRenderer =
  band :: int
  shader :: "QgsColorRampShader option"
  pseudoLimits :: Limits

text \<open>
  A raster renderer is one of the three kinds the engine translates, or another kind of
  the rendering engine (paletted, hillshade, ...), known by its type string only.
\<close>

datatype QgsRasterRenderer =
    Gray QgsSingleBandGrayRenderer
  | Multi QgsMultiBandColorRenderer
  | Pseudo QgsSingleBandPseudoColorRenderer
  | OtherRenderer string Limits

text \<open>\<^verbatim>\<open>renderer.type()\<close>\<close>

definition renderer_type :: "QgsRasterRenderer \<Rightarrow> string" where
  "renderer_type r =
     (case r of
        Gray _ \<Rightarrow> ''singlebandgray''
      | Multi _ \<Rightarrow> ''multibandcolor''
      | Pseudo _ \<Rightarrow> ''singlebandpseudocolor''
      | OtherRenderer t _ \<Rightarrow> t)"

text \<open>\<^verbatim>\<open>renderer.minMaxOrigin().limits()\<close>\<close>

definition limits :: "QgsRasterRenderer \<Rightarrow> Limits" where
  "limits r =
     (case r of
        Gray g \<Rightarrow> grayLimits g
      | Multi m \<Rightarrow> multiLimits m
      | Pseudo p \<Rightarrow> pseudoLimits p
      | OtherRenderer _ l \<Rightarrow> l)"

text \<open>
  The constructors as the module calls them: \<^verbatim>\<open>QgsSingleBandGrayRenderer(None, 1)\<close>,
  \<^verbatim>\<open>QgsMultiBandColorRenderer(None, 1, 1, 1)\<close>, \<^verbatim>\<open>QgsSingleBandPseudoColorRenderer(None, 1)\<close>.
\<close>

definition new_gray :: QgsSingleBandGrayRenderer where
  "new_gray = \<lparr>grayBand = 1, contrastEnhancement = None, gradient = BlackToWhite,
               grayLimits = Limits_None\<rparr>"

definition new_multi :: QgsMultiBandColorRenderer where
  "new_multi = \<lparr>redBand = 1, greenBand = 1, blueBand = 1, redContrastEnhancement = None,
                greenContrastEnhancement = None, blueContrastEnhancement = None,
                multiLimits = Limits_None\<rparr>"

definition new_pseudo :: QgsSingleBandPseudoColorRenderer where
  "new_pseudo = \<lparr>band = 1, shader = None, pseudoLimits = Limits_None\<rparr>"

text \<open>
  What is saved in a raster style file: the renderer and the brightness, contrast, gamma
  and saturation filters.
\<close>

record raster_style =
  rs_renderer :: QgsRasterRenderer
  brightness :: int
  contrast :: int
  gamma :: float
  saturation :: int

text \<open>
  A raster layer: its style and its data. \<open>bandStatistics b\<close> is the minimum and the
  maximum the data provider estimates for band \<open>b\<close> (over the layer's extent, with the
  sample size the module passes).
\<close>

record QgsRasterLayer =
  rl_style :: raster_style
  bandStatistics :: "int \<Rightarrow> float \<times> float"

definition rl_renderer :: "QgsRasterLayer \<Rightarrow> QgsRasterRenderer" where
  "rl_renderer l = rs_renderer (rl_style l)"

definition setRenderer :: "QgsRasterRenderer \<Rightarrow> QgsRasterLayer \<Rightarrow> QgsRasterLayer" where
  "setRenderer r l = l\<lparr>rl_style := (rl_style l)\<lparr>rs_renderer := r\<rparr>\<rparr>"

text \<open>
  \<^verbatim>\<open>QgsRasterLayer.setContrastEnhancement(algorithm, limits)\<close>, for the gray and the
  multi-band renderer: every band gets a fresh enhancement with the algorithm, whose
  bounds are the band's statistics when the limits are \<open>MinMax\<close> and are left unset (NaN)
  otherwise; the limits become the renderer's min/max origin. Other renderers are left
  alone.
\<close>

definition computed_ce ::
  "QgsRasterLayer \<Rightarrow> ContrastEnhancementAlgorithm \<Rightarrow> Limits \<Rightarrow> int \<Rightarrow> QgsContrastEnhancement" where
  "computed_ce l alg lims b =
     (if lims = MinMax
      then \<lparr>contrastEnhancementAlgorithm = alg, minimumValue = fst (bandStatistics l b),
            maximumValue = snd (bandStatistics l b)\<rparr>
      else \<lparr>contrastEnhancementAlgorithm = alg, minimumValue = NaN, maximumValue = NaN\<rparr>)"

definition setContrastEnhancement ::
  "ContrastEnhancementAlgorithm \<Rightarrow> Limits \<Rightarrow> QgsRasterLayer \<Rightarrow> QgsRasterLayer" where
  "setContrastEnhancement alg lims l =
     (case rl_renderer l of
        Gray g \<Rightarrow>
          setRenderer (Gray (g\<lparr>contrastEnhancement := Some (computed_ce l alg lims (grayBand g)),
                               grayLimits := lims\<rparr>)) l
      | Multi m \<Rightarrow>
          setRenderer (Multi (m\<lparr>redContrastEnhancement := Some (computed_ce l alg lims (redBand m)),
                                greenContrastEnhancement := Some (computed_ce l alg lims (greenBand m)),
                                blueContrastEnhancement := Some (computed_ce l alg lims (blueBand m)),
                                multiLimits := lims\<rparr>)) l
      | _ \<Rightarrow> l)"

subsection \<open>\<^verbatim>\<open>class RasterSymbologyRenderer\<close>\<close>

datatype Type = SINGLE_BAND_GRAY | SINGLE_BAND_PSEUDOCOLOR | MULTI_BAND_COLOR

record RasterSymbologyRenderer =
  renderer :: "QgsRasterRenderer option"
  contrast_algorithm :: "ContrastEnhancementAlgorithm option"
  contrast_limits :: Limits
  gray_min :: "float option"
  gray_max :: "float option"
  red_min :: "float option"
  red_max :: "float option"
  green_min :: "float option"
  green_max :: "float option"
  blue_min :: "float option"
  blue_max :: "float option"
  band_min :: "float option"
  band_max :: "float option"

text \<open>\<^verbatim>\<open>RasterSymbologyRenderer.__init__(name)\<close>\<close>

definition init :: "string \<Rightarrow> RasterSymbologyRenderer" where
  "init name =
     \<lparr>renderer =
        (if name = ''singlebandgray'' then Some (Gray new_gray)
         else if name = ''multibandcolor'' then Some (Multi new_multi)
         else if name = ''singlebandpseudocolor'' then Some (Pseudo new_pseudo)
         else None),
      contrast_algorithm = None, contrast_limits = MinMax,
      gray_min = None, gray_max = None, red_min = None, red_max = None,
      green_min = None, green_max = None, blue_min = None, blue_max = None,
      band_min = None, band_max = None\<rparr>"

text \<open>
  The property \<^verbatim>\<open>type\<close>: \<^verbatim>\<open>self.renderer.type()\<close> raises on \<^verbatim>\<open>None\<close>; \<open>Inr None\<close> is
  the final \<^verbatim>\<open>return None\<close>.
\<close>

definition type :: "RasterSymbologyRenderer \<Rightarrow> py_error + Type option" where
  "type self =
     (case renderer self of
        None \<Rightarrow> Inl AttributeError
      | Some r \<Rightarrow>
          if renderer_type r = ''singlebandgray'' then Inr (Some SINGLE_BAND_GRAY)
          else if renderer_type r = ''multibandcolor'' then Inr (Some MULTI_BAND_COLOR)
          else if renderer_type r = ''singlebandpseudocolor''
          then Inr (Some SINGLE_BAND_PSEUDOCOLOR)
          else Inr None)"

text \<open>\<^verbatim>\<open>_load_contrast_enhancement\<close>\<close>

definition load_contrast_enhancement ::
  "RasterSymbologyRenderer \<Rightarrow> json \<Rightarrow> py_error + RasterSymbologyRenderer" where
  "load_contrast_enhancement self properties =
     bnd (py_getitem properties ''algorithm'') (\<lambda>alg.
     let self1 =
           (if alg = JStr ''StretchToMinimumMaximum''
            then self\<lparr>contrast_algorithm := Some StretchToMinimumMaximum\<rparr>
            else if alg = JStr ''NoEnhancement''
            then self\<lparr>contrast_algorithm := Some NoEnhancement\<rparr>
            else self)
     in bnd (py_getitem properties ''limits_min_max'') (\<lambda>lims.
        Inr (if lims = JStr ''UserDefined'' then self1\<lparr>contrast_limits := Limits_None\<rparr>
             else if lims = JStr ''MinMax'' then self1\<lparr>contrast_limits := MinMax\<rparr>
             else self1)))"

text \<open>
  The block the three \<^verbatim>\<open>_load_*_properties\<close> methods repeat for one band entry \<open>e\<close>:
  \<^verbatim>\<open>int(e["band"])\<close>, handed to the renderer's band setter, and, when the limits are
  user defined, \<^verbatim>\<open>float(e["min"])\<close> and \<^verbatim>\<open>float(e["max"])\<close> where present. The result
  is the band and the new values of the two attributes.
\<close>

definition load_bound ::
  "(string \<Rightarrow> float option) \<Rightarrow> json \<Rightarrow> string \<Rightarrow> float option \<Rightarrow> py_error + float option" where
  "load_bound fos e k old =
     bnd (py_in k e) (\<lambda>present.
       if present then bnd (py_getitem e k) (\<lambda>v. bnd (py_float fos v) (\<lambda>f. Inr (Some f)))
       else Inr old)"

definition load_band ::
  "(string \<Rightarrow> float option) \<Rightarrow> Limits \<Rightarrow> json \<Rightarrow> float option \<Rightarrow> float option
   \<Rightarrow> py_error + (int \<times> float option \<times> float option)" where
  "load_band fos lims e old_min old_max =
     bnd (py_getitem e ''band'') (\<lambda>b.
     bnd (py_int b) (\<lambda>n.
     bnd (c_int n) (\<lambda>n.
       if lims = Limits_None
       then bnd (load_bound fos e ''min'' old_min) (\<lambda>mn.
            bnd (load_bound fos e ''max'' old_max) (\<lambda>mx. Inr (n, mn, mx)))
       else Inr (n, old_min, old_max))))"

text \<open>\<^verbatim>\<open>_load_multibandcolor_properties\<close>: red, then blue, then green.\<close>

definition load_multibandcolor_properties ::
  "(string \<Rightarrow> float option) \<Rightarrow> RasterSymbologyRenderer \<Rightarrow> json
   \<Rightarrow> py_error + RasterSymbologyRenderer" where
  "load_multibandcolor_properties fos self properties =
     (case renderer self of
        Some (Multi m0) \<Rightarrow>
          bnd (py_in ''red'' properties) (\<lambda>has_red.
          bnd (if has_red
               then bnd (py_getitem properties ''red'') (\<lambda>red.
                    bnd (load_band fos (contrast_limits self) red (red_min self) (red_max self))
                      (\<lambda>(n, mn, mx).
                         Inr (self\<lparr>renderer := Some (Multi (m0\<lparr>redBand := n\<rparr>)),
                                   red_min := mn, red_max := mx\<rparr>, m0\<lparr>redBand := n\<rparr>)))
               else Inr (self, m0)) (\<lambda>(self1, m1).
          bnd (py_in ''blue'' properties) (\<lambda>has_blue.
          bnd (if has_blue
               then bnd (py_getitem properties ''blue'') (\<lambda>blue.
                    bnd (load_band fos (contrast_limits self1) blue (blue_min self1) (blue_max self1))
                      (\<lambda>(n, mn, mx).
                         Inr (self1\<lparr>renderer := Some (Multi (m1\<lparr>blueBand := n\<rparr>)),
                                    blue_min := mn, blue_max := mx\<rparr>, m1\<lparr>blueBand := n\<rparr>)))
               else Inr (self1, m1)) (\<lambda>(self2, m2).
          bnd (py_in ''green'' properties) (\<lambda>has_green.
            if has_green
            then bnd (py_getitem properties ''green'') (\<lambda>green.
                 bnd (load_band fos (contrast_limits self2) green (green_min self2) (green_max self2))
                   (\<lambda>(n, mn, mx).
                      Inr (self2\<lparr>renderer := Some (Multi (m2\<lparr>greenBand := n\<rparr>)),
                                 green_min := mn, green_max := mx\<rparr>)))
            else Inr self2)))))
      | _ \<Rightarrow> Inl AttributeError)"

text \<open>
  \<^verbatim>\<open>_load_singlebandgray_properties\<close>. The gradient is compared with the lower-case
  words \<^verbatim>\<open>"blacktowhite"\<close> and \<^verbatim>\<open>"whitetoblack"\<close>.
\<close>

definition load_singlebandgray_properties ::
  "(string \<Rightarrow> float option) \<Rightarrow> RasterSymbologyRenderer \<Rightarrow> json
   \<Rightarrow> py_error + RasterSymbologyRenderer" where
  "load_singlebandgray_properties fos self properties =
     (case renderer self of
        Some (Gray g0) \<Rightarrow>
          bnd (py_in ''gray'' properties) (\<lambda>has_gray.
          bnd (if has_gray
               then bnd (py_getitem properties ''gray'') (\<lambda>gray.
                    bnd (load_band fos (contrast_limits self) gray (gray_min self) (gray_max self))
                      (\<lambda>(n, mn, mx).
                         Inr (self\<lparr>renderer := Some (Gray (g0\<lparr>grayBand := n\<rparr>)),
                                   gray_min := mn, gray_max := mx\<rparr>, g0\<lparr>grayBand := n\<rparr>)))
               else Inr (self, g0)) (\<lambda>(self1, g1).
          bnd (py_in ''color_gradient'' properties) (\<lambda>has_gradient.
            if has_gradient
            then bnd (py_getitem properties ''color_gradient'') (\<lambda>gr.
                   if gr = JStr ''blacktowhite''
                   then Inr (self1\<lparr>renderer := Some (Gray (g1\<lparr>gradient := BlackToWhite\<rparr>))\<rparr>)
                   else if gr = JStr ''whitetoblack''
                   then Inr (self1\<lparr>renderer := Some (Gray (g1\<lparr>gradient := WhiteToBlack\<rparr>))\<rparr>)
                   else Inr self1)
            else Inr self1)))
      | _ \<Rightarrow> Inl AttributeError)"

text \<open>
  \<^verbatim>\<open>_load_singlebandpseudocolor_properties\<close>. The colour ramp is looked up by name in the
  rendering engine's default style; a name that is not a string cannot be passed.
\<close>

definition load_ramp :: "json \<Rightarrow> py_error + QgsColorRampShader" where
  "load_ramp ramp =
     bnd (py_in ''interpolation'' ramp) (\<lambda>has_interpolation.
     bnd (if has_interpolation
          then bnd (py_getitem ramp ''interpolation'') (\<lambda>i.
                 Inr (if i = JStr ''Discrete'' then Discrete
                      else if i = JStr ''Exact'' then Exact
                      else Interpolated))
          else Inr Interpolated) (\<lambda>shader_type.
     bnd (py_in ''name'' ramp) (\<lambda>has_name.
     bnd (if has_name
          then bnd (py_getitem ramp ''name'') (\<lambda>n.
                 case n of JStr s \<Rightarrow> Inr s | _ \<Rightarrow> Inl TypeError)
          else Inr ''Spectral'') (\<lambda>color_ramp.
       Inr \<lparr>sourceColorRamp = color_ramp, colorRampType = shader_type\<rparr>))))"

definition load_singlebandpseudocolor_properties ::
  "(string \<Rightarrow> float option) \<Rightarrow> RasterSymbologyRenderer \<Rightarrow> json
   \<Rightarrow> py_error + RasterSymbologyRenderer" where
  "load_singlebandpseudocolor_properties fos self properties =
     (case renderer self of
        Some (Pseudo p0) \<Rightarrow>
          bnd (py_in ''band'' properties) (\<lambda>has_band.
          bnd (if has_band
               then bnd (py_getitem properties ''band'') (\<lambda>b.
                    bnd (load_band fos (contrast_limits self) b (band_min self) (band_max self))
                      (\<lambda>(n, mn, mx).
                         Inr (self\<lparr>renderer := Some (Pseudo (p0\<lparr>band := n\<rparr>)),
                                   band_min := mn, band_max := mx\<rparr>, p0\<lparr>band := n\<rparr>)))
               else Inr (self, p0)) (\<lambda>(self1, p1).
          bnd (py_in ''ramp'' properties) (\<lambda>has_ramp.
            if has_ramp
            then bnd (py_getitem properties ''ramp'') (\<lambda>ramp.
                 bnd (load_ramp ramp) (\<lambda>sh.
                   Inr (self1\<lparr>renderer := Some (Pseudo (p1\<lparr>shader := Some sh\<rparr>))\<rparr>)))
            else Inr self1)))
      | _ \<Rightarrow> Inl AttributeError)"

text \<open>
  \<^verbatim>\<open>load(properties)\<close>. The returned pair is the method's \<^verbatim>\<open>(bool, str)\<close>; the object is
  returned with it.
\<close>

definition load ::
  "(string \<Rightarrow> float option) \<Rightarrow> RasterSymbologyRenderer \<Rightarrow> json
   \<Rightarrow> py_error + ((bool \<times> string) \<times> RasterSymbologyRenderer)" where
  "load fos self properties =
     (if renderer self = None then Inr ((False, ''Invalid renderer''), self)
      else
        bnd (py_in ''contrast_enhancement'' properties) (\<lambda>has_ce.
        bnd (if has_ce
             then bnd (py_getitem properties ''contrast_enhancement'')
                    (load_contrast_enhancement self)
             else Inr self) (\<lambda>self1.
        bnd (type self1) (\<lambda>t.
        bnd (if t = Some MULTI_BAND_COLOR
             then load_multibandcolor_properties fos self1 properties
             else if t = Some SINGLE_BAND_GRAY
             then load_singlebandgray_properties fos self1 properties
             else if t = Some SINGLE_BAND_PSEUDOCOLOR
             then load_singlebandpseudocolor_properties fos self1 properties
             else Inr self1) (\<lambda>self2.
          Inr ((True, []), self2))))))"

text \<open>
  \<^verbatim>\<open>_refresh_min_max_singlebandgray\<close>. \<^verbatim>\<open>QgsContrastEnhancement(ce)\<close> copies an
  enhancement and cannot copy \<^verbatim>\<open>None\<close>. The statistics are those of band 1.
\<close>

definition refresh_min_max_singlebandgray :: "QgsRasterLayer \<Rightarrow> py_error + QgsRasterLayer" where
  "refresh_min_max_singlebandgray layer =
     (case rl_renderer layer of
        Gray g \<Rightarrow>
          (case contrastEnhancement g of
             None \<Rightarrow> Inl TypeError
           | Some ce \<Rightarrow>
               if contrastEnhancementAlgorithm ce = NoEnhancement
                  \<or> contrastEnhancementAlgorithm ce = UserDefinedEnhancement
               then Inr layer
               else
                 let ce1 = (if grayLimits g = MinMax
                            then ce\<lparr>minimumValue := fst (bandStatistics layer 1),
                                    maximumValue := snd (bandStatistics layer 1)\<rparr>
                            else ce)
                 in Inr (setRenderer (Gray (g\<lparr>contrastEnhancement := Some ce1\<rparr>)) layer))
      | _ \<Rightarrow> Inl AttributeError)"

text \<open>
  \<^verbatim>\<open>_refresh_min_max_multibandcolor\<close>: the algorithm that decides the early return is
  the red band's.
\<close>

definition refresh_min_max_multibandcolor :: "QgsRasterLayer \<Rightarrow> py_error + QgsRasterLayer" where
  "refresh_min_max_multibandcolor layer =
     (case rl_renderer layer of
        Multi m \<Rightarrow>
          (case (redContrastEnhancement m, greenContrastEnhancement m,
                 blueContrastEnhancement m) of
             (Some red_ce, Some green_ce, Some blue_ce) \<Rightarrow>
               if contrastEnhancementAlgorithm red_ce = NoEnhancement
                  \<or> contrastEnhancementAlgorithm red_ce = UserDefinedEnhancement
               then Inr layer
               else
                 let stats = (\<lambda>ce b. if multiLimits m = MinMax
                                then ce\<lparr>minimumValue := fst (bandStatistics layer b),
                                        maximumValue := snd (bandStatistics layer b)\<rparr>
                                else ce)
                 in Inr (setRenderer
                      (Multi (m\<lparr>redContrastEnhancement := Some (stats red_ce (redBand m)),
                                greenContrastEnhancement := Some (stats green_ce (greenBand m)),
                                blueContrastEnhancement := Some (stats blue_ce (blueBand m))\<rparr>))
                      layer)
           | _ \<Rightarrow> Inl TypeError)
      | _ \<Rightarrow> Inl AttributeError)"

text \<open>\<^verbatim>\<open>_refresh_min_max_singlebandpseudocolor\<close> is \<^verbatim>\<open>pass\<close>.\<close>

definition refresh_min_max_singlebandpseudocolor :: "QgsRasterLayer \<Rightarrow> py_error + QgsRasterLayer" where
  "refresh_min_max_singlebandpseudocolor layer = Inr layer"

text \<open>\<^verbatim>\<open>refresh_min_max(layer)\<close>: the layer is returned as the method leaves it.\<close>

definition refresh_min_max ::
  "RasterSymbologyRenderer \<Rightarrow> QgsRasterLayer \<Rightarrow> py_error + QgsRasterLayer" where
  "refresh_min_max self layer =
     (if limits (rl_renderer layer) = Limits_None then Inr layer
      else
        bnd (type self) (\<lambda>t.
          if t = Some SINGLE_BAND_GRAY then refresh_min_max_singlebandgray layer
          else if t = Some MULTI_BAND_COLOR then refresh_min_max_multibandcolor layer
          else if t = Some SINGLE_BAND_PSEUDOCOLOR
          then refresh_min_max_singlebandpseudocolor layer
          else Inr layer))"

text \<open>\<^verbatim>\<open>_multibandcolor_properties\<close>\<close>

definition limits_min_max_json :: "Limits \<Rightarrow> json" where
  "limits_min_max_json l = (if l = MinMax then JStr ''MinMax'' else JStr ''UserDefined'')"

definition algorithm_json :: "ContrastEnhancementAlgorithm \<Rightarrow> json" where
  "algorithm_json a =
     (if a = StretchToMinimumMaximum then JStr ''StretchToMinimumMaximum''
      else JStr ''NoEnhancement'')"

definition multibandcolor_properties :: "QgsMultiBandColorRenderer \<Rightarrow> py_error + json" where
  "multibandcolor_properties r =
     (case redContrastEnhancement r of
        Some red_ce \<Rightarrow>
          (case (blueContrastEnhancement r, greenContrastEnhancement r) of
             (Some blue_ce, Some green_ce) \<Rightarrow>
               Inr (JObj
                 [(''contrast_enhancement'',
                     JObj [(''limits_min_max'', limits_min_max_json (multiLimits r)),
                           (''algorithm'', algorithm_json (contrastEnhancementAlgorithm red_ce))]),
                  (''red'', JObj [(''band'', JInt (redBand r)),
                                  (''min'', JFloat (minimumValue red_ce)),
                                  (''max'', JFloat (maximumValue red_ce))]),
                  (''blue'', JObj [(''band'', JInt (blueBand r)),
                                   (''min'', JFloat (minimumValue blue_ce)),
                                   (''max'', JFloat (maximumValue blue_ce))]),
                  (''green'', JObj [(''band'', JInt (greenBand r)),
                                    (''min'', JFloat (minimumValue green_ce)),
                                    (''max'', JFloat (maximumValue green_ce))])])
           | _ \<Rightarrow> Inl TypeError)
      | None \<Rightarrow>
          Inr (JObj
            [(''contrast_enhancement'',
                JObj [(''limits_min_max'', limits_min_max_json (multiLimits r)),
                      (''algorithm'', JStr ''StretchToMinimumMaximum'')]),
             (''red'', JObj [(''band'', JInt (redBand r))]),
             (''blue'', JObj [(''band'', JInt (blueBand r))]),
             (''green'', JObj [(''band'', JInt (greenBand r))])]))"

text \<open>\<^verbatim>\<open>_singlebandgray_properties\<close>: the enhancement is read without a test for \<^verbatim>\<open>None\<close>.\<close>

definition singlebandgray_properties :: "QgsSingleBandGrayRenderer \<Rightarrow> py_error + json" where
  "singlebandgray_properties r =
     (case contrastEnhancement r of
        None \<Rightarrow> Inl AttributeError
      | Some ce \<Rightarrow>
          Inr (JObj
            [(''gray'', JObj [(''band'', JInt (grayBand r)),
                              (''min'', JFloat (minimumValue ce)),
                              (''max'', JFloat (maximumValue ce))]),
             (''color_gradient'',
                (if gradient r = BlackToWhite then JStr ''BlackToWhite''
                 else JStr ''WhiteToBlack'')),
             (''contrast_enhancement'',
                JObj [(''algorithm'', algorithm_json (contrastEnhancementAlgorithm ce)),
                      (''limits_min_max'', limits_min_max_json (grayLimits r))])]))"

text \<open>\<^verbatim>\<open>_singlebandpseudocolor_properties\<close> returns the empty dict.\<close>

definition singlebandpseudocolor_properties :: "QgsRasterRenderer \<Rightarrow> py_error + json" where
  "singlebandpseudocolor_properties r = Inr (JObj [])"

text \<open>
  \<^verbatim>\<open>style_to_json(path)\<close>: \<open>stem\<close> is \<^verbatim>\<open>path.stem\<close> and \<open>rs\<close> the style the file holds,
  as \<^verbatim>\<open>loadNamedStyle\<close> puts it on the placeholder layer. A getter of one renderer
  class does not exist on another.
\<close>

definition style_to_json :: "string \<Rightarrow> raster_style \<Rightarrow> py_error + (json \<times> string)" where
  "style_to_json stem rs =
     (let r = rs_renderer rs in
      bnd (type (init (renderer_type r))) (\<lambda>rt.
      bnd (if rt = Some SINGLE_BAND_GRAY
           then (case r of Gray g \<Rightarrow> singlebandgray_properties g | _ \<Rightarrow> Inl AttributeError)
           else if rt = Some MULTI_BAND_COLOR
           then (case r of Multi m \<Rightarrow> multibandcolor_properties m | _ \<Rightarrow> Inl AttributeError)
           else if rt = Some SINGLE_BAND_PSEUDOCOLOR
           then singlebandpseudocolor_properties r
           else Inr (JObj [])) (\<lambda>props.
        Inr (JObj
          [(''name'', JStr stem),
           (''type'', JStr ''raster''),
           (''symbology'', JObj [(''type'', JStr (renderer_type r)),
                                 (''properties'', props)]),
           (''rendering'', JObj [(''brightness'', JInt (brightness rs)),
                                 (''contrast'', JInt (contrast rs)),
                                 (''gamma'', JFloat (gamma rs)),
                                 (''saturation'', JInt (saturation rs))])], []))))"

section \<open>Vector symbology (\<^verbatim>\<open>project.py\<close>)\<close>

subsection \<open>The rendering engine's symbols\<close>

text \<open>
  \<^verbatim>\<open>QColor(r, g, b, a)\<close> keeps the four channels it is given; nothing checks their range.
\<close>

record QColor =
  red :: int
  green :: int
  blue :: int
  alpha :: int

definition new_QColor :: "int \<Rightarrow> int \<Rightarrow> int \<Rightarrow> int \<Rightarrow> py_error + QColor" where
  "new_QColor r g b a =
     bnd (c_int r) (\<lambda>r. bnd (c_int g) (\<lambda>g. bnd (c_int b) (\<lambda>b. bnd (c_int a) (\<lambda>a.
       Inr \<lparr>red = r, green = g, blue = b, alpha = a\<rparr>))))"

record QgsSvgMarkerSymbolLayer =
  path :: string
  color :: QColor
  strokeColor :: QColor
  size :: float

datatype QgsSymbol =
    QgsFillSymbol "(string \<times> json) list"
  | QgsLineSymbol "(string \<times> json) list"
  | QgsMarkerSymbol QgsSvgMarkerSymbolLayer

datatype QgsFeatureRenderer =
    QgsSingleSymbolRenderer QgsSymbol
  | QgsGraduatedSymbolRenderer string "(float \<times> float \<times> QgsSymbol) list"
  | QgsCategorizedSymbolRenderer string "(json \<times> QgsSymbol) list"

text \<open>Arguments the bindings convert: a C \<^verbatim>\<open>double\<close> and a \<^verbatim>\<open>QString\<close>.\<close>

definition c_double :: "json \<Rightarrow> py_error + float" where
  "c_double v =
     (case v of
        JInt n \<Rightarrow> Inr (Float (of_int n))
      | JBool b \<Rightarrow> Inr (Float (if b then 1 else 0))
      | JFloat f \<Rightarrow> Inr f
      | _ \<Rightarrow> Inl TypeError)"

definition q_string :: "json \<Rightarrow> py_error + string" where
  "q_string v = (case v of JStr s \<Rightarrow> Inr s | _ \<Rightarrow> Inl TypeError)"

text \<open>\<^verbatim>\<open>int(testSplit[i])\<close>\<close>

definition int_field :: "string list \<Rightarrow> nat \<Rightarrow> py_error + int" where
  "int_field parts i =
     bnd (item parts i) (\<lambda>f.
       case int_of_str f of None \<Rightarrow> Inl ValueError | Some n \<Rightarrow> Inr n)"

text \<open>
  \<^verbatim>\<open>testSplit = str(v).split(",")\<close>. For a string, \<^verbatim>\<open>str(v)\<close> is the string. The text of
  any other JSON value is not needed: an integer prints without a comma, so it is a single
  field; the text of \<^verbatim>\<open>True\<close>, \<^verbatim>\<open>False\<close>, \<^verbatim>\<open>None\<close>, of a float, of a list
  (\<^verbatim>\<open>[\<close> first) and of a dict (\<^verbatim>\<open>{\<close> first) has a first field that \<^verbatim>\<open>int\<close> refuses,
  written here as the field \<open>''?''\<close>.
\<close>

definition str_split_comma :: "json \<Rightarrow> string list" where
  "str_split_comma v =
     (case v of
        JStr s \<Rightarrow> split_on CHR '','' s
      | JInt n \<Rightarrow> [''0'']
      | _ \<Rightarrow> [''?''])"

text \<open>
  The lines every marker branch repeats once \<^verbatim>\<open>testSplit\<close> is there:
  \<^verbatim>\<open>setColor(QColor(int(t[0]), int(t[1]), int(t[2]), int(t[3])))\<close> and
  \<^verbatim>\<open>setStrokeColor(QColor(0, 0, 0, int(t[3])))\<close>.
\<close>

definition marker_colors :: "string list \<Rightarrow> py_error + (QColor \<times> QColor)" where
  "marker_colors t =
     bnd (int_field t 0) (\<lambda>r.
     bnd (int_field t 1) (\<lambda>g.
     bnd (int_field t 2) (\<lambda>b.
     bnd (int_field t 3) (\<lambda>a.
     bnd (new_QColor r g b a) (\<lambda>c.
     bnd (int_field t 3) (\<lambda>a'.
     bnd (new_QColor 0 0 0 a') (\<lambda>sc. Inr (c, sc))))))))"

subsection \<open>\<^verbatim>\<open>_create_single_symbol_style\<close>\<close>

text \<open>\<open>Inr None\<close> is \<^verbatim>\<open>return None\<close> (symbol not implemented).\<close>

definition create_single_symbol_style :: "json \<Rightarrow> py_error + QgsFeatureRenderer option" where
  "create_single_symbol_style symbology =
     bnd (py_getitem symbology ''symbol'') (\<lambda>symbol.
     bnd (py_getitem symbology ''properties'') (\<lambda>properties.
       if symbol = JStr ''fill'' then
         bnd (py_getitem properties ''outline_width'') (\<lambda>ow.
         bnd (py_getitem properties ''outline_style'') (\<lambda>os.
         bnd (py_getitem properties ''outline_color'') (\<lambda>oc.
         bnd (py_getitem properties ''color'') (\<lambda>c.
           Inr (Some (QgsSingleSymbolRenderer (QgsFillSymbol
             [(''outline_width'', ow), (''outline_style'', os), (''outline_color'', oc),
              (''color'', c), (''outline_width_unit'', JStr ''MM'')])))))))
       else if symbol = JStr ''line'' then
         bnd (py_getitem properties ''outline_width'') (\<lambda>ow.
         bnd (py_getitem properties ''outline_style'') (\<lambda>os.
         bnd (py_getitem properties ''outline_color'') (\<lambda>oc.
           Inr (Some (QgsSingleSymbolRenderer (QgsLineSymbol
             [(''line_width'', ow), (''line_style'', os), (''color'', oc),
              (''capstyle'', JStr ''round''), (''line_width_unit'', JStr ''MM''),
              (''joinstyle'', JStr ''round'')]))))))
       else if symbol = JStr ''marker'' then
         bnd (py_getitem properties ''color'') (\<lambda>c.
         let testSplit = str_split_comma c in
         bnd (py_getitem properties ''symbol_path'') (\<lambda>sp.
         bnd (q_string sp) (\<lambda>sp.
         bnd (marker_colors testSplit) (\<lambda>(col, stroke).
         bnd (py_getitem properties ''size'') (\<lambda>sz.
         bnd (c_double sz) (\<lambda>sz.
           Inr (Some (QgsSingleSymbolRenderer (QgsMarkerSymbol
             \<lparr>path = sp, color = col, strokeColor = stroke, size = sz\<rparr>)))))))))
       else Inr None))"

subsection \<open>\<^verbatim>\<open>_create_categorized_style\<close>\<close>

text \<open>The body of each of the three loops, for one entry of \<^verbatim>\<open>list_categorized\<close>.\<close>

definition categorized_fill :: "json \<Rightarrow> py_error + (json \<times> QgsSymbol)" where
  "categorized_fill cv =
     bnd (py_getitem cv ''outline_width'') (\<lambda>ow.
     bnd (py_getitem cv ''outline_style'') (\<lambda>os.
     bnd (py_getitem cv ''outline_color'') (\<lambda>oc.
     bnd (py_getitem cv ''color'') (\<lambda>c.
     bnd (py_getitem cv ''value'') (\<lambda>v.
       Inr (v, QgsFillSymbol
         [(''outline_width'', ow), (''outline_style'', os), (''outline_color'', oc),
          (''color'', c)]))))))"

definition categorized_line :: "json \<Rightarrow> py_error + (json \<times> QgsSymbol)" where
  "categorized_line cv =
     bnd (py_getitem cv ''outline_width'') (\<lambda>ow.
     bnd (py_getitem cv ''outline_style'') (\<lambda>os.
     bnd (py_getitem cv ''outline_color'') (\<lambda>oc.
     bnd (py_getitem cv ''value'') (\<lambda>v.
       Inr (v, QgsLineSymbol
         [(''line_width'', ow), (''line_style'', os), (''color'', oc),
          (''outline_width_unit'', JStr ''MM'')])))))"

definition categorized_marker :: "json \<Rightarrow> py_error + (json \<times> QgsSymbol)" where
  "categorized_marker cv =
     bnd (py_getitem cv ''symbol_path'') (\<lambda>sp.
     bnd (q_string sp) (\<lambda>sp.
     bnd (py_getitem cv ''color'') (\<lambda>c.
     let testSplit = str_split_comma c in
     bnd (marker_colors testSplit) (\<lambda>(col, stroke).
     bnd (py_getitem cv ''size'') (\<lambda>sz.
     bnd (c_double sz) (\<lambda>sz.
     bnd (py_getitem cv ''value'') (\<lambda>v.
       Inr (v, QgsMarkerSymbol
         \<lparr>path = sp, color = col, strokeColor = stroke, size = sz\<rparr>))))))))"

definition create_categorized_style :: "json \<Rightarrow> py_error + QgsFeatureRenderer option" where
  "create_categorized_style symbology =
     bnd (py_getitem symbology ''symbol'') (\<lambda>symbol.
     bnd (py_getitem symbology ''properties'') (\<lambda>properties.
     bnd (py_getitem properties ''attributs'') (\<lambda>attribut.
       if symbol = JStr ''fill'' \<or> symbol = JStr ''line'' \<or> symbol = JStr ''marker'' then
         bnd (py_getitem properties ''list_categorized'') (\<lambda>entries.
         bnd (py_iter entries) (\<lambda>entries.
         bnd (for_each (if symbol = JStr ''fill'' then categorized_fill
                        else if symbol = JStr ''line'' then categorized_line
                        else categorized_marker) entries) (\<lambda>ranges.
         bnd (q_string attribut) (\<lambda>attribut.
           Inr (Some (QgsCategorizedSymbolRenderer attribut ranges))))))
       else Inr None)))"

subsection \<open>\<^verbatim>\<open>_create_graduated_style\<close>\<close>

definition graduated_range :: "json \<Rightarrow> QgsSymbol \<Rightarrow> py_error + (float \<times> float \<times> QgsSymbol)" where
  "graduated_range gv symbol =
     bnd (py_getitem gv ''min'') (\<lambda>mn.
     bnd (py_getitem gv ''max'') (\<lambda>mx.
     bnd (c_double mn) (\<lambda>mn.
     bnd (c_double mx) (\<lambda>mx. Inr (mn, mx, symbol)))))"

definition graduated_fill :: "json \<Rightarrow> py_error + (float \<times> float \<times> QgsSymbol)" where
  "graduated_fill gv =
     bnd (py_getitem gv ''outline_width'') (\<lambda>ow.
     bnd (py_getitem gv ''outline_style'') (\<lambda>os.
     bnd (py_getitem gv ''outline_color'') (\<lambda>oc.
     bnd (py_getitem gv ''color'') (\<lambda>c.
       graduated_range gv (QgsFillSymbol
         [(''outline_width'', ow), (''outline_style'', os), (''outline_color'', oc),
          (''outline_width_unit'', JStr ''MM''), (''color'', c)])))))"

definition graduated_line :: "json \<Rightarrow> py_error + (float \<times> float \<times> QgsSymbol)" where
  "graduated_line gv =
     bnd (py_getitem gv ''outline_width'') (\<lambda>ow.
     bnd (py_getitem gv ''outline_style'') (\<lambda>os.
     bnd (py_getitem gv ''outline_color'') (\<lambda>oc.
       graduated_range gv (QgsLineSymbol
         [(''line_width'', ow), (''line_style'', os), (''color'', oc),
          (''line_width_unit'', JStr ''MM'')]))))"

definition graduated_marker :: "json \<Rightarrow> py_error + (float \<times> float \<times> QgsSymbol)" where
  "graduated_marker gv =
     bnd (py_getitem gv ''symbol_path'') (\<lambda>sp.
     bnd (q_string sp) (\<lambda>sp.
     bnd (py_getitem gv ''color'') (\<lambda>c.
     let testSplit = str_split_comma c in
     bnd (marker_colors testSplit) (\<lambda>(col, stroke).
     bnd (py_getitem gv ''size'') (\<lambda>sz.
     bnd (c_double sz) (\<lambda>sz.
       graduated_range gv (QgsMarkerSymbol
         \<lparr>path = sp, color = col, strokeColor = stroke, size = sz\<rparr>)))))))"

definition create_graduated_style :: "json \<Rightarrow> py_error + QgsFeatureRenderer option" where
  "create_graduated_style symbology =
     bnd (py_getitem symbology ''symbol'') (\<lambda>symbol.
     bnd (py_getitem symbology ''properties'') (\<lambda>properties.
     bnd (py_getitem properties ''attributs'') (\<lambda>attribut.
       if symbol = JStr ''fill'' \<or> symbol = JStr ''line'' \<or> symbol = JStr ''marker'' then
         bnd (py_getitem properties ''list_graduated'') (\<lambda>entries.
         bnd (py_iter entries) (\<lambda>entries.
         bnd (for_each (if symbol = JStr ''fill'' then graduated_fill
                        else if symbol = JStr ''line'' then graduated_line
                        else graduated_marker) entries) (\<lambda>ranges.
         bnd (q_string attribut) (\<lambda>attribut.
           Inr (Some (QgsGraduatedSymbolRenderer attribut ranges))))))
       else Inr None)))"

section \<open>Projects (\<^verbatim>\<open>project.py\<close>)\<close>

subsection \<open>Layers and their style manager\<close>

datatype LayerType = Vector | Raster

text \<open>The content of a style file, and the live style of a layer.\<close>

datatype style_blob = VectorStyle QgsFeatureRenderer | RasterStyle raster_style

definition style_kind :: "style_blob \<Rightarrow> LayerType" where
  "style_kind b = (case b of VectorStyle _ \<Rightarrow> Vector | RasterStyle _ \<Rightarrow> Raster)"

type_synonym QDateTime = string

text \<open>
  A map layer as the project descriptor keeps it. \<open>l_styles\<close> is the style manager's
  ordered set of named styles; the entry of the current style holds no data (\<open>None\<close>),
  its content is the layer's live style \<open>l_style\<close>.
\<close>

record QgsMapLayer =
  l_name :: string
  l_type :: LayerType
  l_source :: string
  l_provider :: string
  l_valid :: bool
  l_error :: string
  l_geometry :: string
  l_authid :: string
  l_extent :: "float list"
  l_temporal :: "QDateTime option"
  l_style :: style_blob
  l_current_style :: string
  l_styles :: "(string \<times> style_blob option) list"

text \<open>\<^verbatim>\<open>layer.styleManager().styles()\<close>\<close>

definition styles_of :: "QgsMapLayer \<Rightarrow> string list" where
  "styles_of l = map fst (l_styles l)"

text \<open>\<^verbatim>\<open>layer.styleManager().style(name)\<close>; \<open>None\<close> is an invalid (empty) style.\<close>

definition style_of :: "QgsMapLayer \<Rightarrow> string \<Rightarrow> style_blob option" where
  "style_of l n =
     (if n = l_current_style l then Some (l_style l)
      else (case map_of (l_styles l) n of Some b \<Rightarrow> b | None \<Rightarrow> None))"

text \<open>
  \<^verbatim>\<open>addStyle(name, style)\<close> refuses a name that is taken and an invalid style.
\<close>

definition addStyle :: "string \<Rightarrow> style_blob option \<Rightarrow> QgsMapLayer \<Rightarrow> QgsMapLayer" where
  "addStyle n b l =
     (if n \<in> set (styles_of l) \<or> b = None then l
      else l\<lparr>l_styles := l_styles l @ [(n, b)]\<rparr>)"

text \<open>
  \<^verbatim>\<open>setCurrentStyle(name)\<close>: the live style is stored under the old current name and the
  named one becomes live.
\<close>

definition setCurrentStyle :: "string \<Rightarrow> QgsMapLayer \<Rightarrow> QgsMapLayer" where
  "setCurrentStyle n l =
     (if n \<notin> set (styles_of l) then l
      else if l_current_style l = n then l
      else
        let synced = map (\<lambda>(k, b). if k = l_current_style l then (k, Some (l_style l)) else (k, b))
                       (l_styles l);
            live = (case map_of synced n of Some (Some b) \<Rightarrow> b | _ \<Rightarrow> l_style l)
        in l\<lparr>l_style := live, l_current_style := n,
              l_styles := map (\<lambda>(k, b). if k = n then (k, None) else (k, b)) synced\<rparr>)"

text \<open>
  \<^verbatim>\<open>removeStyle(name)\<close>: the last style cannot be removed; removing the current style
  makes another one current first.
\<close>

definition removeStyle :: "string \<Rightarrow> QgsMapLayer \<Rightarrow> QgsMapLayer" where
  "removeStyle n l =
     (if n \<notin> set (styles_of l) then l
      else if length (l_styles l) = 1 then l
      else
        let l1 = (if l_current_style l = n
                  then setCurrentStyle (hd (filter (\<lambda>k. k \<noteq> n) (styles_of l))) l
                  else l)
        in l1\<lparr>l_styles := filter (\<lambda>(k, b). k \<noteq> n) (l_styles l1)\<rparr>)"

text \<open>
  \<^verbatim>\<open>loadNamedStyle(path)\<close>: \<open>file\<close> is the content of the file at the path, \<open>None\<close> when
  there is none. A missing file or a style of the other layer type leaves the layer as it
  is; the module does not look at the result.
\<close>

definition loadNamedStyle :: "style_blob option \<Rightarrow> QgsMapLayer \<Rightarrow> QgsMapLayer" where
  "loadNamedStyle file l =
     (case file of
        None \<Rightarrow> l
      | Some b \<Rightarrow> if style_kind b = l_type l then l\<lparr>l_style := b\<rparr> else l)"

subsection \<open>The persisted state of one project and its surroundings\<close>

record QgsProject =
  p_author :: string
  p_crs :: string
  mapLayers :: "QgsMapLayer list"

record CacheMirrorEntry =
  bbox :: "float list"
  epsg :: int
  is_raster :: bool
  temporal :: "QDateTime option"

text \<open>
  What is stored for the project \<^verbatim>\<open>QSAProject(name, schema)\<close>: the projects directory and
  the project's own directory, the project descriptor (the \<^verbatim>\<open>.qgs\<close> file, or the entry
  of the relational catalog), the style files \<^verbatim>\<open><name>.qml\<close> by name, the table
  \<^verbatim>\<open>styles_default\<close> of \<^verbatim>\<open>qsa.db\<close> (\<open>None\<close>: no database file yet), and the cache mirror
  configuration.
\<close>

record state =
  projects_dir_exists :: bool
  project_dir_exists :: bool
  descriptor :: "QgsProject option"
  style_files :: "string \<rightharpoonup> style_blob"
  styles_default :: "(string \<times> string) list option"
  mirror :: "string \<rightharpoonup> CacheMirrorEntry"

text \<open>
  What the engine asks of its collaborators, as the outcome of each call:
  configuration (\<open>mapproxy_enabled\<close>, \<open>postgresql\<close>), the storage backend
  (\<open>write_ok\<close>, \<open>project_error\<close>), the rendering engine (\<open>open_layer\<close> for
  \<^verbatim>\<open>QgsVectorLayer(uri, name, provider)\<close> and \<^verbatim>\<open>QgsRasterLayer(uri, name, provider)\<close>,
  \<open>data_source_uri\<close>, \<open>crs_authid\<close> for the identifier of the CRS made from
  \<^verbatim>\<open>EPSG:<code>\<close>, \<open>band_statistics\<close>, \<open>empty_tif\<close> for the placeholder layer
  \<^verbatim>\<open>QgsRasterLayer("empty.tif", "", "gdal")\<close>), Python's float parser and Qt's date parser.
  \<^verbatim>\<open>RasterOverview\<close> (\<^verbatim>\<open>raster/overview.py\<close>) and \<^verbatim>\<open>QSAMapProxy\<close> (\<^verbatim>\<open>mapproxy.py\<close>) are
  modules of the repository that are not among the sources at hand: the results of
  \<^verbatim>\<open>is_valid()\<close>, \<^verbatim>\<open>build()\<close>, \<^verbatim>\<open>read()\<close> and \<^verbatim>\<open>add_layer(...)\<close> are parameters too.
\<close>

record datasource =
  ds_valid :: bool
  ds_error :: string
  ds_geometry :: string
  ds_authid :: string
  ds_extent :: "float list"
  ds_style :: style_blob

record env =
  mapproxy_enabled :: bool
  postgresql :: bool
  write_ok :: bool
  project_error :: string
  open_layer :: "LayerType \<Rightarrow> string \<Rightarrow> string \<Rightarrow> datasource"
  data_source_uri :: "string \<Rightarrow> string"
  crs_authid :: "int \<Rightarrow> string"
  band_statistics :: "string \<Rightarrow> int \<Rightarrow> float \<times> float"
  empty_tif :: QgsRasterLayer
  overview_is_valid :: "string \<Rightarrow> bool"
  overview_build :: "string \<Rightarrow> bool \<times> string"
  mp_read :: "bool \<times> string"
  mp_add_layer :: "string \<Rightarrow> bool \<times> string"
  float_of_str :: "string \<Rightarrow> float option"
  qdatetime_valid :: "string \<Rightarrow> bool"

text \<open>
  \<^verbatim>\<open>QgsProject().read(uri)\<close>: a descriptor that cannot be read leaves the new project
  empty.
\<close>

definition empty_project :: QgsProject where
  "empty_project = \<lparr>p_author = [], p_crs = [], mapLayers = []\<rparr>"

definition read :: "state \<Rightarrow> QgsProject" where
  "read st = (case descriptor st of None \<Rightarrow> empty_project | Some p \<Rightarrow> p)"

text \<open>\<^verbatim>\<open>project.write()\<close>: the result and the state after it.\<close>

definition project_write :: "env \<Rightarrow> QgsProject \<Rightarrow> state \<Rightarrow> bool \<times> state" where
  "project_write e p st = (if write_ok e then (True, st\<lparr>descriptor := Some p\<rparr>) else (False, st))"

definition mapLayersByName :: "QgsProject \<Rightarrow> string \<Rightarrow> QgsMapLayer list" where
  "mapLayersByName p n = filter (\<lambda>l. l_name l = n) (mapLayers p)"

text \<open>The property \<^verbatim>\<open>layers\<close>\<close>

definition layers :: "state \<Rightarrow> string list" where
  "layers st = map l_name (mapLayers (read st))"

text \<open>The property \<^verbatim>\<open>styles\<close>: the stems of the \<^verbatim>\<open>.qml\<close> files.\<close>

definition styles :: "state \<Rightarrow> string set" where
  "styles st = dom (style_files st)"

subsection \<open>The default-style table\<close>

text \<open>The property \<^verbatim>\<open>sqlite_db\<close> creates the database on first access.\<close>

definition initial_rows :: "(string \<times> string) list" where
  "initial_rows = [(''line'', ''default''), (''polygon'', ''default''), (''point'', ''default'')]"

definition sqlite_db :: "state \<Rightarrow> state" where
  "sqlite_db st =
     (case styles_default st of
        None \<Rightarrow> st\<lparr>projects_dir_exists := True, project_dir_exists := True,
                   styles_default := Some initial_rows\<rparr>
      | Some _ \<Rightarrow> st)"

text \<open>The rows of the table once the database is there.\<close>

definition rows :: "state \<Rightarrow> (string \<times> string) list" where
  "rows st = (case styles_default st of None \<Rightarrow> initial_rows | Some r \<Rightarrow> r)"

text \<open>
  The two SQL statements are built by pasting the arguments between single quotes. With
  a quote in an argument the statement is no longer the one meant; the model has it fail
  (a text crafted to stay well-formed SQL is outside the model).
\<close>

definition has_quote :: "string \<Rightarrow> bool" where
  "has_quote s = (CHR 0x27 \<in> set s)"

text \<open>
  \<^verbatim>\<open>style_default(geometry)\<close>: \<^verbatim>\<open>fetchone()[0]\<close> raises when no row matches.
\<close>

definition style_default :: "state \<Rightarrow> string \<Rightarrow> (py_error + string) \<times> state" where
  "style_default st geometry =
     (let st1 = sqlite_db st in
      if has_quote geometry then (Inl OperationalError, st1)
      else (case map_of (rows st) geometry of
              None \<Rightarrow> (Inl TypeError, st1)
            | Some s \<Rightarrow> (Inr s, st1)))"

text \<open>\<^verbatim>\<open>style_update(geometry, style)\<close>\<close>

definition style_update :: "state \<Rightarrow> string \<Rightarrow> string \<Rightarrow> (py_error + unit) \<times> state" where
  "style_update st geometry style' =
     (let st1 = sqlite_db st in
      if has_quote geometry \<or> has_quote style' then (Inl OperationalError, st1)
      else (Inr (),
            st1\<lparr>styles_default :=
                  Some (map (\<lambda>(g, s). if g = geometry then (g, style') else (g, s))
                          (rows st))\<rparr>))"

subsection \<open>The cache mirror\<close>

text \<open>
  Modelled from the spec: \<^verbatim>\<open>QSAMapProxy\<close> (\<^verbatim>\<open>mapproxy.py\<close>) is missing from the sources.
  The cache mirror configuration is a document keyed by layer name; \<^verbatim>\<open>create()\<close> makes
  an empty one, \<^verbatim>\<open>add_layer\<close> followed by \<^verbatim>\<open>write()\<close> stores the layer's entry,
  \<^verbatim>\<open>remove_layer\<close> followed by \<^verbatim>\<open>write()\<close> retracts it, and \<^verbatim>\<open>clear_cache\<close> drops
  rendered tiles, which are not part of the configuration.
\<close>

definition mp_create :: "state \<Rightarrow> state" where
  "mp_create st = st\<lparr>mirror := Map.empty\<rparr>"

definition mp_store :: "string \<Rightarrow> CacheMirrorEntry \<Rightarrow> state \<Rightarrow> state" where
  "mp_store n entry st = st\<lparr>mirror := (mirror st)(n \<mapsto> entry)\<rparr>"

definition mp_retract :: "string \<Rightarrow> state \<Rightarrow> state" where
  "mp_retract n st = st\<lparr>mirror := (mirror st)(n := None)\<rparr>"

definition mp_clear_cache :: "string \<Rightarrow> state \<Rightarrow> state" where
  "mp_clear_cache n st = st"

subsection \<open>Static helpers\<close>

text \<open>\<^verbatim>\<open>_layer_type\<close>\<close>

definition layer_type :: "string \<Rightarrow> LayerType option" where
  "layer_type t =
     (if lower t = ''vector'' then Some Vector
      else if lower t = ''raster'' then Some Raster
      else None)"

text \<open>\<^verbatim>\<open>_layer_provider\<close>\<close>

definition layer_provider :: "LayerType \<Rightarrow> string \<Rightarrow> string" where
  "layer_provider t datasource =
     (case t of
        Vector \<Rightarrow> if contains ''table='' datasource then ''postgres'' else ''ogr''
      | Raster \<Rightarrow> ''gdal'')"

text \<open>\<^verbatim>\<open>_layer_epsg_code\<close>\<close>

definition layer_epsg_code :: "QgsMapLayer \<Rightarrow> py_error + int" where
  "layer_epsg_code lyr =
     (let authid_items = split_on CHR '':'' (l_authid lyr) in
      if length authid_items < 2 then Inr (- 1)
      else (case int_of_str (authid_items ! 1) of
              None \<Rightarrow> Inl ValueError
            | Some n \<Rightarrow> Inr n))"

text \<open>
  \<^verbatim>\<open>_layer_bbox\<close>: the four coordinates of the extent, which the rendering engine prints
  and the method reads back.
\<close>

definition layer_bbox :: "QgsMapLayer \<Rightarrow> float list" where
  "layer_bbox lyr = l_extent lyr"

subsection \<open>\<^verbatim>\<open>exists\<close> and \<^verbatim>\<open>create\<close>\<close>

text \<open>
  \<^verbatim>\<open>exists()\<close>: the project directory under the filesystem backend, the catalog listing
  under the relational one (which makes the projects directory when the project is listed).
\<close>

definition exists :: "env \<Rightarrow> state \<Rightarrow> bool \<times> state" where
  "exists e st =
     (if \<not> postgresql e then (project_dir_exists st, st)
      else if descriptor st \<noteq> None then (True, st\<lparr>projects_dir_exists := True\<rparr>)
      else (False, st))"

text \<open>
  What a Python function hands back: \<^verbatim>\<open>return b\<close> or \<^verbatim>\<open>return b, s\<close>.
\<close>

datatype returned = Bool bool | Tuple bool string

text \<open>\<^verbatim>\<open>create(author) -> (bool, str)\<close>\<close>

definition create :: "env \<Rightarrow> state \<Rightarrow> string \<Rightarrow> returned \<times> state" where
  "create e st author =
     (let (ex, st0) = exists e st in
      if ex then (Bool False, st0)
      else
        let st1 = st0\<lparr>projects_dir_exists := True, project_dir_exists := True\<rparr>;
            project = \<lparr>p_author = author, p_crs = ''EPSG:3857'', mapLayers = []\<rparr>;
            (rc, st2) = project_write e project st1;
            st3 = (if mapproxy_enabled e then mp_create st2 else st2)
        in (Tuple rc (project_error e), sqlite_db st3))"

subsection \<open>\<^verbatim>\<open>layer_update_style\<close>\<close>

fun update_first :: "('a \<Rightarrow> bool) \<Rightarrow> 'a \<Rightarrow> 'a list \<Rightarrow> 'a list" where
  "update_first P y [] = []"
| "update_first P y (x # xs) = (if P x then y # xs else x # update_first P y xs)"

text \<open>
  The raster branch:
  \<^verbatim>\<open>RasterSymbologyRenderer(layer.renderer().type()).refresh_min_max(layer)\<close>.
\<close>

definition refresh_symbology :: "env \<Rightarrow> QgsMapLayer \<Rightarrow> py_error + QgsMapLayer" where
  "refresh_symbology e layer =
     (case l_style layer of
        RasterStyle rs \<Rightarrow>
          bnd (refresh_min_max (init (renderer_type (rs_renderer rs)))
                 \<lparr>rl_style = rs, bandStatistics = band_statistics e (l_source layer)\<rparr>)
            (\<lambda>rl. Inr (layer\<lparr>l_style := RasterStyle (rl_style rl)\<rparr>))
      | VectorStyle _ \<Rightarrow> Inl AttributeError)"

text \<open>
  \<^verbatim>\<open>layer_update_style(layer_name, style_name, current)\<close>. The layer is the first one
  whose name is \<^verbatim>\<open>layer_name.strip()\<close>; \<^verbatim>\<open>[0]\<close> raises when there is none. The project
  is written at the end and the result of the write is not looked at.
\<close>

definition layer_update_style ::
  "env \<Rightarrow> state \<Rightarrow> string \<Rightarrow> string \<Rightarrow> bool \<Rightarrow> (py_error + bool \<times> string) \<times> state" where
  "layer_update_style e st layer_name style_name current =
     (let st0 = mp_clear_cache layer_name st;
          project = read st0
      in case mapLayersByName project (strip layer_name) of
           [] \<Rightarrow> (Inl IndexError, st0)
         | layer # _ \<Rightarrow>
             let layer1 =
                   (if style_name \<notin> set (styles_of layer)
                    then let l = loadNamedStyle (style_files st0 style_name) layer
                         in addStyle style_name (style_of l ''default'') layer
                    else layer)
             in (case (if current
                       then let layer2 = setCurrentStyle style_name layer1
                            in if l_type layer2 = Raster then refresh_symbology e layer2
                               else Inr layer2
                       else Inr layer1) of
                   Inl err \<Rightarrow> (Inl err, st0)
                 | Inr layer3 \<Rightarrow>
                     (Inr (True, []),
                      snd (project_write e
                             (project\<lparr>mapLayers :=
                                update_first (\<lambda>l. l_name l = strip layer_name) layer3
                                  (mapLayers project)\<rparr>) st0))))"

subsection \<open>\<^verbatim>\<open>remove_layer\<close>\<close>

text \<open>
  \<^verbatim>\<open>remove_layer(name) -> bool\<close>. The variable \<^verbatim>\<open>rc\<close> first holds the result of the
  project write and is then assigned the result of the mirror's \<^verbatim>\<open>read()\<close>.
\<close>

definition remove_layer :: "env \<Rightarrow> state \<Rightarrow> string \<Rightarrow> bool \<times> state" where
  "remove_layer e st name =
     (let project = read st;
          project1 = project\<lparr>mapLayers := filter (\<lambda>l. l_name l \<noteq> name) (mapLayers project)\<rparr>;
          (rc, st1) = project_write e project1 st
      in if mapproxy_enabled e
         then let (rc, err) = mp_read e
              in if \<not> rc then (False, st1)
                 else (rc, mp_retract name st1)
         else (rc, st1))"

subsection \<open>\<^verbatim>\<open>add_layer\<close>\<close>

text \<open>
  \<^verbatim>\<open>QgsVectorLayer(uri, name, provider)\<close> and \<^verbatim>\<open>QgsRasterLayer(uri, name, provider)\<close>: a
  new layer has the single style \<^verbatim>\<open>default\<close>, which is current.
\<close>

definition new_layer :: "env \<Rightarrow> LayerType \<Rightarrow> string \<Rightarrow> string \<Rightarrow> string \<Rightarrow> QgsMapLayer" where
  "new_layer e t uri name provider =
     (let ds = open_layer e t uri provider in
      \<lparr>l_name = name, l_type = t, l_source = uri, l_provider = provider,
       l_valid = ds_valid ds, l_error = ds_error ds, l_geometry = ds_geometry ds,
       l_authid = ds_authid ds, l_extent = ds_extent ds, l_temporal = None,
       l_style = ds_style ds, l_current_style = ''default'',
       l_styles = [(''default'', None)]\<rparr>)"

text \<open>\<^verbatim>\<open>lyr.setContrastEnhancement(StretchToMinimumMaximum)\<close>; the limits default to \<open>MinMax\<close>.\<close>

definition stretch :: "env \<Rightarrow> QgsMapLayer \<Rightarrow> QgsMapLayer" where
  "stretch e lyr =
     (case l_style lyr of
        RasterStyle rs \<Rightarrow>
          lyr\<lparr>l_style := RasterStyle (rl_style
                 (setContrastEnhancement StretchToMinimumMaximum MinMax
                    \<lparr>rl_style = rs, bandStatistics = band_statistics e (l_source lyr)\<rparr>))\<rparr>
      | VectorStyle _ \<Rightarrow> lyr)"

text \<open>
  The construction of the layer, from \<^verbatim>\<open>provider = ...\<close> down to the \<^verbatim>\<open>if/elif\<close> on
  the layer type. \<open>Inr (Inl r)\<close> is the early \<^verbatim>\<open>return False, err\<close> of a failed overview
  build.
\<close>

definition init_layer ::
  "env \<Rightarrow> LayerType \<Rightarrow> string \<Rightarrow> string \<Rightarrow> bool \<Rightarrow> QDateTime option
   \<Rightarrow> py_error + ((bool \<times> string) + QgsMapLayer)" where
  "init_layer e t datasource name overview datetime =
     (let provider = layer_provider t datasource in
      case t of
        Vector \<Rightarrow>
          bnd (if contains ''wkb_geometry'' datasource
               then bnd (item (split_on CHR ''.'' datasource) 1) (\<lambda>part.
                      Inr (data_source_uri e
                             (strip (remove_all ''(wkb_geometry)'' (remove_all [CHR 0x22] part)))))
               else Inr datasource) (\<lambda>tableName.
            Inr (Inr (new_layer e Vector tableName name provider)))
      | Raster \<Rightarrow>
          let lyr = stretch e (new_layer e Raster datasource name provider);
              (rc, err) = (if overview \<and> \<not> overview_is_valid e datasource
                           then overview_build e datasource else (True, []))
          in if \<not> rc then Inr (Inl (False, err))
             else Inr (Inr (if datetime \<noteq> None then lyr\<lparr>l_temporal := datetime\<rparr> else lyr)))"

text \<open>
  The last part of \<^verbatim>\<open>add_layer\<close>, under \<^verbatim>\<open># add layer in mapproxy config file\<close>.
\<close>

definition add_layer_mapproxy ::
  "env \<Rightarrow> state \<Rightarrow> QgsMapLayer \<Rightarrow> string \<Rightarrow> LayerType \<Rightarrow> QDateTime option
   \<Rightarrow> (py_error + bool \<times> string) \<times> state" where
  "add_layer_mapproxy e st lyr name t datetime =
     (if mapproxy_enabled e
      then
        (case layer_epsg_code lyr of
           Inl err \<Rightarrow> (Inl err, st)
         | Inr epsg_code \<Rightarrow>
             if epsg_code < 0 then (Inr (False, ''Invalid CRS '' @ l_authid lyr), st)
             else
               let (rc, err) = mp_read e in
               if \<not> rc then (Inr (False, err), st)
               else
                 let (rc, err) = mp_add_layer e name in
                 if \<not> rc then (Inr (False, err), st)
                 else (Inr (True, []),
                       mp_store name \<lparr>bbox = layer_bbox lyr, epsg = epsg_code,
                                      is_raster = (t = Raster), temporal = datetime\<rparr> st))
      else (Inr (True, []), st))"

text \<open>
  \<^verbatim>\<open>add_layer(datasource, layer_type, name, epsg_code, overview, datetime)\<close>. The project
  is written as soon as the layer is valid; the default style and the cache mirror come
  after the write.
\<close>

definition add_layer ::
  "env \<Rightarrow> state \<Rightarrow> string \<Rightarrow> string \<Rightarrow> string \<Rightarrow> int \<Rightarrow> bool \<Rightarrow> QDateTime option
   \<Rightarrow> (py_error + bool \<times> string) \<times> state" where
  "add_layer e st datasource layer_type' name epsg_code overview datetime =
     (case layer_type layer_type' of
        None \<Rightarrow> (Inr (False, ''Invalid layer type''), st)
      | Some t \<Rightarrow>
          if name \<in> set (layers st)
          then (Inr (False, ''A layer '' @ name @ '' already exists''), st)
          else
            (case init_layer e t datasource name overview datetime of
               Inl err \<Rightarrow> (Inl err, st)
             | Inr (Inl r) \<Rightarrow> (Inr r, st)
             | Inr (Inr lyr) \<Rightarrow>
                 if \<not> l_valid lyr
                 then (Inr (False, ''Invalid layer ('' @ l_error lyr @ '')''), st)
                 else
                   let lyr1 = (if epsg_code > 0
                               then lyr\<lparr>l_authid := crs_authid e epsg_code\<rparr> else lyr)
                   in if \<not> l_valid lyr1
                      then (Inr (False, ''Invalid layer ('' @ l_error lyr1 @ '')''), st)
                      else
                        let project = read st;
                            st1 = snd (project_write e
                                         (project\<lparr>mapLayers := mapLayers project @ [lyr1]\<rparr>) st)
                        in if t = Vector
                           then
                             (case style_default st1 (lower (l_geometry lyr1)) of
                                (Inl err, st2) \<Rightarrow> (Inl err, st2)
                              | (Inr default_style, st2) \<Rightarrow>
                                  (case layer_update_style e st2 name default_style True of
                                     (Inl err, st3) \<Rightarrow> (Inl err, st3)
                                   | (Inr _, st3) \<Rightarrow>
                                       add_layer_mapproxy e st3 lyr1 name t datetime))
                           else add_layer_mapproxy e st1 lyr1 name t datetime))"

subsection \<open>\<^verbatim>\<open>add_style\<close>\<close>

text \<open>
  The three ways out of \<^verbatim>\<open>_add_style_vector\<close> and \<^verbatim>\<open>_add_style_raster\<close>: an exception,
  \<^verbatim>\<open>return False, msg\<close> (\<open>Inr (Inl msg)\<close>), and \<^verbatim>\<open>saveNamedStyle\<close> to the file
  \<^verbatim>\<open><name>.qml\<close> followed by \<^verbatim>\<open>return True, ""\<close> (\<open>Inr (Inr blob)\<close>). Nothing is
  written before; \<^verbatim>\<open>saveNamedStyle\<close> replaces a file that is there.
\<close>

definition save ::
  "state \<Rightarrow> string \<Rightarrow> py_error + (string + style_blob) \<Rightarrow> (py_error + bool \<times> string) \<times> state" where
  "save st name m =
     (case m of
        Inl err \<Rightarrow> (Inl err, st)
      | Inr (Inl msg) \<Rightarrow> (Inr (False, msg), st)
      | Inr (Inr blob) \<Rightarrow> (Inr (True, []), st\<lparr>style_files := (style_files st)(name \<mapsto> blob)\<rparr>))"

text \<open>
  \<^verbatim>\<open>_add_style_vector(name, symbology, rendering)\<close>. The opacity is set on the layer but
  is not in the category that is saved.
\<close>

definition add_style_vector ::
  "env \<Rightarrow> state \<Rightarrow> string \<Rightarrow> json \<Rightarrow> json \<Rightarrow> (py_error + bool \<times> string) \<times> state" where
  "add_style_vector e st name symbology rendering =
     save st name
      (bnd (py_in ''type'' symbology) (\<lambda>has_type.
       if \<not> has_type then Inr (Inl ''`type` is missing in `symbology`'') else
       bnd (py_in ''symbol'' symbology) (\<lambda>has_symbol.
       if \<not> has_symbol then Inr (Inl ''`symbol` is missing in `symbology`'') else
       bnd (py_in ''properties'' symbology) (\<lambda>has_properties.
       if \<not> has_properties then Inr (Inl ''`properties` is missing in `symbology`'') else
       bnd (py_getitem symbology ''type'') (\<lambda>t.
       bnd (if t = JStr ''single_symbol'' then create_single_symbol_style symbology
            else if t = JStr ''graduated'' then create_graduated_style symbology
            else if t = JStr ''categorized'' then create_categorized_style symbology
            else Inr None) (\<lambda>render.
       bnd (py_in ''opacity'' rendering) (\<lambda>has_opacity.
       bnd (if has_opacity
            then bnd (py_getitem rendering ''opacity'') (\<lambda>v.
                 bnd (py_float (float_of_str e) v) (\<lambda>_. Inr ()))
            else Inr ()) (\<lambda>_.
         case render of
           Some r \<Rightarrow> Inr (Inr (VectorStyle r))
         | None \<Rightarrow> Inr (Inl ''Error'')))))))))"

text \<open>
  The filters of \<^verbatim>\<open>_add_style_raster\<close>: \<^verbatim>\<open>gamma\<close>, \<^verbatim>\<open>brightness\<close>, \<^verbatim>\<open>contrast\<close> and
  \<^verbatim>\<open>saturation\<close>, each set when its key is in \<^verbatim>\<open>rendering\<close>.
\<close>

definition int_setting :: "json \<Rightarrow> string \<Rightarrow> int \<Rightarrow> py_error + int" where
  "int_setting rendering k old =
     bnd (py_in k rendering) (\<lambda>present.
       if present
       then bnd (py_getitem rendering k) (\<lambda>v. bnd (py_int v) c_int)
       else Inr old)"

definition config_rendering :: "env \<Rightarrow> json \<Rightarrow> raster_style \<Rightarrow> py_error + raster_style" where
  "config_rendering e rendering rs =
     bnd (py_in ''gamma'' rendering) (\<lambda>has_gamma.
     bnd (if has_gamma
          then bnd (py_getitem rendering ''gamma'') (py_float (float_of_str e))
          else Inr (gamma rs)) (\<lambda>g.
     bnd (int_setting rendering ''brightness'' (brightness rs)) (\<lambda>b.
     bnd (int_setting rendering ''contrast'' (contrast rs)) (\<lambda>c.
     bnd (int_setting rendering ''saturation'' (saturation rs)) (\<lambda>s.
       Inr (rs\<lparr>gamma := g, brightness := b, contrast := c, saturation := s\<rparr>))))))"

text \<open>
  The user-defined bounds: \<^verbatim>\<open>setMinimumValue\<close> and \<^verbatim>\<open>setMaximumValue\<close> on a copy of an
  enhancement, each when the value is not \<^verbatim>\<open>None\<close>.
\<close>

definition set_bounds ::
  "float option \<Rightarrow> float option \<Rightarrow> QgsContrastEnhancement option
   \<Rightarrow> py_error + QgsContrastEnhancement option" where
  "set_bounds mn mx ce =
     (case ce of
        None \<Rightarrow> Inl TypeError
      | Some c \<Rightarrow>
          let c1 = (case mn of None \<Rightarrow> c | Some v \<Rightarrow> c\<lparr>minimumValue := v\<rparr>);
              c2 = (case mx of None \<Rightarrow> c1 | Some v \<Rightarrow> c1\<lparr>maximumValue := v\<rparr>)
          in Inr (Some c2))"

definition user_defined_min_max ::
  "RasterSymbologyRenderer \<Rightarrow> QgsRasterLayer \<Rightarrow> py_error + QgsRasterLayer" where
  "user_defined_min_max r rl =
     (case rl_renderer rl of
        Gray g \<Rightarrow>
          bnd (set_bounds (gray_min r) (gray_max r) (contrastEnhancement g)) (\<lambda>ce.
            Inr (setRenderer (Gray (g\<lparr>contrastEnhancement := ce\<rparr>)) rl))
      | Multi m \<Rightarrow>
          bnd (set_bounds (red_min r) (red_max r) (redContrastEnhancement m)) (\<lambda>red_ce.
          bnd (set_bounds (green_min r) (green_max r) (greenContrastEnhancement m)) (\<lambda>green_ce.
          bnd (set_bounds (blue_min r) (blue_max r) (blueContrastEnhancement m)) (\<lambda>blue_ce.
            Inr (setRenderer (Multi (m\<lparr>redContrastEnhancement := red_ce,
                                         greenContrastEnhancement := green_ce,
                                         blueContrastEnhancement := blue_ce\<rparr>)) rl))))
      | _ \<Rightarrow> Inr rl)"

text \<open>
  \<^verbatim>\<open>_add_style_raster(name, symbology, rendering)\<close>. A \<^verbatim>\<open>type\<close> that is not a string
  equals none of the three renderer names. The result of \<^verbatim>\<open>load\<close> is not looked at.
\<close>

definition add_style_raster ::
  "env \<Rightarrow> state \<Rightarrow> string \<Rightarrow> json \<Rightarrow> json \<Rightarrow> (py_error + bool \<times> string) \<times> state" where
  "add_style_raster e st name symbology rendering =
     save st name
      (bnd (py_in ''type'' symbology) (\<lambda>has_type.
       if \<not> has_type then Inr (Inl ''`type` is missing in `symbology`'') else
       bnd (py_in ''properties'' symbology) (\<lambda>has_properties.
       if \<not> has_properties then Inr (Inl ''`properties` is missing in `symbology`'') else
       bnd (py_getitem symbology ''type'') (\<lambda>t.
       bnd (py_getitem symbology ''properties'') (\<lambda>properties.
       bnd (load (float_of_str e) (init (case t of JStr n \<Rightarrow> n | _ \<Rightarrow> [])) properties)
         (\<lambda>(_, renderer').
       bnd (config_rendering e rendering (rl_style (empty_tif e))) (\<lambda>rs.
         case renderer renderer' of
           None \<Rightarrow> Inr (Inl ''Error'')
         | Some r \<Rightarrow>
             let rl = setRenderer r ((empty_tif e)\<lparr>rl_style := rs\<rparr>) in
             bnd (case contrast_algorithm renderer' of
                    None \<Rightarrow> Inr rl
                  | Some alg \<Rightarrow>
                      let rl1 = setContrastEnhancement alg (contrast_limits renderer') rl in
                      if contrast_limits renderer' = Limits_None
                      then user_defined_min_max renderer' rl1
                      else Inr rl1) (\<lambda>rl2.
               Inr (Inr (RasterStyle (rl_style rl2)))))))))))"

text \<open>\<^verbatim>\<open>add_style(name, layer_type, symbology, rendering)\<close>\<close>

definition add_style ::
  "env \<Rightarrow> state \<Rightarrow> string \<Rightarrow> string \<Rightarrow> json \<Rightarrow> json \<Rightarrow> (py_error + bool \<times> string) \<times> state" where
  "add_style e st name layer_type' symbology rendering =
     (case layer_type layer_type' of
        Some Vector \<Rightarrow> add_style_vector e st name symbology rendering
      | Some Raster \<Rightarrow> add_style_raster e st name symbology rendering
      | None \<Rightarrow> (Inr (False, ''Invalid layer type''), st))"

subsection \<open>\<^verbatim>\<open>remove_style\<close>\<close>

definition remove_style :: "env \<Rightarrow> state \<Rightarrow> string \<Rightarrow> (bool \<times> string) \<times> state" where
  "remove_style e st name =
     (if name \<notin> styles st
      then ((False, ''Style '' @ [CHR 0x27] @ name @ [CHR 0x27] @ '' does not exist''), st)
      else
        let p = read st in
        case find (\<lambda>layer. name = l_current_style layer) (mapLayers p) of
          Some layer \<Rightarrow> ((False, ''Style is used by '' @ l_name layer), st)
        | None \<Rightarrow>
            let p1 = p\<lparr>mapLayers := map (removeStyle name) (mapLayers p)\<rparr>;
                st1 = st\<lparr>style_files := (style_files st)(name := None)\<rparr>
            in ((True, []), snd (project_write e p1 st1)))"

section \<open>Request handlers (\<^verbatim>\<open>api/projects.py\<close>)\<close>

text \<open>
  A handler answers \<^verbatim>\<open>jsonify(v), 201\<close>, or \<^verbatim>\<open>{"error": str(e)}, 415\<close> for the exception
  \<open>e\<close> it has caught. The request bodies are taken after the schema validation, as records
  whose optional keys are options.
\<close>

datatype response = Created json | Error415 py_error

record project_add_data =
  pa_name :: string
  pa_author :: string
  pa_schema :: "string option"

text \<open>\<^verbatim>\<open>project_add\<close>: \<^verbatim>\<open>rc, err = project.create(author)\<close> cannot unpack a bare boolean.\<close>

definition project_add :: "env \<Rightarrow> state \<Rightarrow> project_add_data \<Rightarrow> response \<times> state" where
  "project_add e st data =
     (let (ex, st1) = exists e st in
      if ex then (Error415 (Exception ''Project already exists''), st1)
      else
        (case create e st1 (pa_author data) of
           (Bool _, st2) \<Rightarrow> (Error415 TypeError, st2)
         | (Tuple rc err, st2) \<Rightarrow>
             if \<not> rc then (Error415 (Exception err), st2)
             else (Created (JBool True), st2)))"



section \<open>Notions the properties are stated with\<close>

text \<open>
  The algorithm the refresh methods read into \<^verbatim>\<open>alg\<close>: the one of the gray renderer's
  enhancement, or the one of the red band once the three enhancements have been copied.
\<close>

definition contrast_algorithm_of :: "QgsRasterRenderer \<Rightarrow> ContrastEnhancementAlgorithm option" where
  "contrast_algorithm_of r =
     (case r of
        Gray g \<Rightarrow> map_option contrastEnhancementAlgorithm (contrastEnhancement g)
      | Multi m \<Rightarrow>
          (case (redContrastEnhancement m, greenContrastEnhancement m,
                 blueContrastEnhancement m) of
             (Some red_ce, Some _, Some _) \<Rightarrow> Some (contrastEnhancementAlgorithm red_ce)
           | _ \<Rightarrow> None)
      | _ \<Rightarrow> None)"


definition categorized_marker_symbology :: "string \<Rightarrow> string \<Rightarrow> int \<Rightarrow> json" where
  "categorized_marker_symbology c p sz =
     JObj [(''type'', JStr ''categorized''), (''symbol'', JStr ''marker''),
           (''properties'',
              JObj [(''attributs'', JStr ''kind''),
                    (''list_categorized'',
                       JList [JObj [(''value'', JStr ''a''), (''color'', JStr c),
                                    (''symbol_path'', JStr p), (''size'', JInt sz)]])])]"

definition marker :: "string \<Rightarrow> QColor \<Rightarrow> QColor \<Rightarrow> int \<Rightarrow> QgsSymbol" where
  "marker p col stroke sz =
     QgsMarkerSymbol \<lparr>path = p, color = col, strokeColor = stroke, size = Float (of_int sz)\<rparr>"

section \<open>An example deployment\<close>

text \<open>
  The data of the repository's tests: the polygons of \<^verbatim>\<open>data.gpkg\<close>, the raster
  \<^verbatim>\<open>landsat_4326.tif\<close>, and a project that has just been created.
\<close>

definition polygons :: datasource where
  "polygons =
     \<lparr>ds_valid = True, ds_error = [], ds_geometry = ''Polygon'', ds_authid = ''EPSG:4326'',
      ds_extent = [Float 0, Float 0, Float 1, Float 1],
      ds_style = VectorStyle (QgsSingleSymbolRenderer (QgsFillSymbol []))\<rparr>"

definition landsat :: datasource where
  "landsat =
     \<lparr>ds_valid = True, ds_error = [], ds_geometry = [], ds_authid = ''EPSG:4326'',
      ds_extent = [Float 0, Float 0, Float 1, Float 1],
      ds_style = RasterStyle \<lparr>rs_renderer = Multi new_multi, brightness = 0, contrast = 0,
                               gamma = Float 1, saturation = 0\<rparr>\<rparr>"

definition example_env :: env where
  "example_env =
     \<lparr>mapproxy_enabled = False, postgresql = False, write_ok = True, project_error = [],
      open_layer = (\<lambda>t uri provider. if t = Vector then polygons else landsat),
      data_source_uri = (\<lambda>table. table),
      crs_authid = (\<lambda>code. if code = 4326 then ''EPSG:4326'' else []),
      band_statistics = (\<lambda>source b. (Float 1, Float 254)),
      empty_tif = \<lparr>rl_style = \<lparr>rs_renderer = Gray new_gray, brightness = 0, contrast = 0,
                                gamma = Float 1, saturation = 0\<rparr>,
                   bandStatistics = (\<lambda>b. (Float 0, Float 0))\<rparr>,
      overview_is_valid = (\<lambda>source. True),
      overview_build = (\<lambda>source. (True, [])),
      mp_read = (True, []),
      mp_add_layer = (\<lambda>n. (True, [])),
      float_of_str = (\<lambda>s. None),
      qdatetime_valid = (\<lambda>s. False)\<rparr>"

definition new_project :: state where
  "new_project =
     \<lparr>projects_dir_exists = True, project_dir_exists = True,
      descriptor = Some \<lparr>p_author = ''pblottiere'', p_crs = ''EPSG:3857'', mapLayers = []\<rparr>,
      style_files = Map.empty, styles_default = Some initial_rows, mirror = Map.empty\<rparr>"

definition layer0 :: QgsMapLayer where
  "layer0 = new_layer example_env Vector ''data.gpkg|layername=polygons'' ''layer0'' ''ogr''"

definition project_with_layer :: state where
  "project_with_layer =
     new_project\<lparr>descriptor :=
       Some \<lparr>p_author = ''pblottiere'', p_crs = ''EPSG:3857'', mapLayers = [layer0]\<rparr>\<rparr>"

definition style_fill :: style_blob where
  "style_fill =
     VectorStyle (QgsSingleSymbolRenderer (QgsFillSymbol
       [(''outline_width'', JFloat (Float 0.16)), (''outline_style'', JStr ''solid''),
        (''outline_color'', JStr ''#002222''), (''color'', JStr ''#00BBBB''),
        (''outline_width_unit'', JStr ''MM'')]))"

text \<open>The project with the style \<^verbatim>\<open>s1\<close> stored, and then applied to \<^verbatim>\<open>layer0\<close> as current.\<close>

definition project_with_style :: state where
  "project_with_style = project_with_layer\<lparr>style_files := [''s1'' \<mapsto> style_fill]\<rparr>"

definition layer0_s1 :: QgsMapLayer where
  "layer0_s1 = layer0\<lparr>l_style := style_fill, l_current_style := ''s1'',
                       l_styles := [(''default'', Some (l_style layer0)), (''s1'', None)]\<rparr>"

definition project_style_in_use :: state where
  "project_style_in_use =
     project_with_style\<lparr>descriptor :=
       Some \<lparr>p_author = ''pblottiere'', p_crs = ''EPSG:3857'', mapLayers = [layer0_s1]\<rparr>\<rparr>"

text \<open>The same project when \<^verbatim>\<open>s1\<close> is attached to \<^verbatim>\<open>layer0\<close> without being current.\<close>

definition layer0_attached :: QgsMapLayer where
  "layer0_attached = layer0\<lparr>l_styles := [(''default'', None), (''s1'', Some style_fill)]\<rparr>"

definition project_style_attached :: state where
  "project_style_attached =
     project_with_style\<lparr>descriptor :=
       Some \<lparr>p_author = ''pblottiere'', p_crs = ''EPSG:3857'', mapLayers = [layer0_attached]\<rparr>\<rparr>"

text \<open>
  The raster of the tests as a layer, and the multi-band style the tests store.
\<close>

definition raster0 :: QgsMapLayer where
  "raster0 = stretch example_env (new_layer example_env Raster ''landsat_4326.tif'' ''layer0'' ''gdal'')"

definition style_multibandcolor :: raster_style where
  "style_multibandcolor =
     \<lparr>rs_renderer = Multi new_multi, brightness = 10, contrast = 3, gamma = Float 1,
      saturation = 2\<rparr>"

definition project_with_raster :: state where
  "project_with_raster =
     new_project\<lparr>descriptor :=
         Some \<lparr>p_author = ''pblottiere'', p_crs = ''EPSG:3857'', mapLayers = [raster0]\<rparr>,
       style_files := [''s1'' \<mapsto> RasterStyle style_multibandcolor]\<rparr>"


text \<open>The line style of the tests.\<close>

definition line_symbology :: json where
  "line_symbology =
     JObj [(''type'', JStr ''single_symbol''), (''symbol'', JStr ''line''),
           (''properties'', JObj [(''outline_width'', JFloat (Float 0.75)),
                                  (''outline_style'', JStr ''dash''),
                                  (''outline_color'', JStr ''#0055FF'')])]"

definition style_line :: style_blob where
  "style_line =
     VectorStyle (QgsSingleSymbolRenderer (QgsLineSymbol
       [(''line_width'', JFloat (Float 0.75)), (''line_style'', JStr ''dash''),
        (''color'', JStr ''#0055FF''), (''capstyle'', JStr ''round''),
        (''line_width_unit'', JStr ''MM''), (''joinstyle'', JStr ''round'')]))"

text \<open>
  A pseudocolor style on band 2 and the symbology it is made from.
\<close>

definition pseudo_band2 :: raster_style where
  "pseudo_band2 =
     \<lparr>rs_renderer = Pseudo (new_pseudo\<lparr>band := 2\<rparr>), brightness = 0, contrast = 0,
      gamma = Float 1, saturation = 0\<rparr>"

definition pseudo_band2_symbology :: json where
  "pseudo_band2_symbology =
     JObj [(''type'', JStr ''singlebandpseudocolor''),
           (''properties'', JObj [(''band'', JObj [(''band'', JInt 2)])])]"

definition gray_style :: raster_style where
  "gray_style =
     \<lparr>rs_renderer = Gray (new_gray\<lparr>contrastEnhancement :=
                              Some \<lparr>contrastEnhancementAlgorithm = NoEnhancement,
                                    minimumValue = Float 0, maximumValue = Float 255\<rparr>,
                            grayLimits := MinMax\<rparr>),
      brightness = 0, contrast = 0, gamma = Float 1, saturation = 0\<rparr>"

definition gray_layer :: QgsRasterLayer where
  "gray_layer = \<lparr>rl_style = gray_style, bandStatistics = (\<lambda>b. (Float 12, Float 200))\<rparr>"

section \<open>Verification\<close>

lemma bnd_Inl [simp]: "bnd (Inl err) f = Inl err"
  by (simp add: bnd_def)

lemma bnd_Inr [simp]: "bnd (Inr v) f = f v"
  by (simp add: bnd_def)

subsection \<open>Facts about the style manager and the descriptor\<close>

lemma find_None_iff_all: "find P xs = None \<longleftrightarrow> (\<forall>x\<in>set xs. \<not> P x)"
  by (induction xs) auto

lemma filter_update_first:
  "filter P xs = x # rest \<Longrightarrow> P y \<Longrightarrow> filter P (update_first P y xs) = y # rest"
  by (induction xs) (auto split: if_splits)

lemma styles_of_setCurrentStyle [simp]: "styles_of (setCurrentStyle n l) = styles_of l"
  by (auto simp: setCurrentStyle_def styles_of_def Let_def comp_def split_def)

lemma current_setCurrentStyle:
  "n \<in> set (styles_of l) \<Longrightarrow> l_current_style (setCurrentStyle n l) = n"
  by (simp add: setCurrentStyle_def Let_def)

lemma name_setCurrentStyle [simp]: "l_name (setCurrentStyle n l) = l_name l"
  by (simp add: setCurrentStyle_def Let_def)

lemma type_setCurrentStyle [simp]: "l_type (setCurrentStyle n l) = l_type l"
  by (simp add: setCurrentStyle_def Let_def)

lemma refresh_symbology_keeps:
  "refresh_symbology e l = Inr l' \<Longrightarrow>
     l_name l' = l_name l \<and> l_current_style l' = l_current_style l \<and> styles_of l' = styles_of l"
  by (auto simp: refresh_symbology_def bnd_def styles_of_def split: style_blob.splits sum.splits)

lemma addStyle_new:
  "n \<notin> set (styles_of l) \<Longrightarrow>
   addStyle n (Some b) l = l\<lparr>l_styles := l_styles l @ [(n, Some b)]\<rparr>"
  by (simp add: addStyle_def)

lemma style_of_loaded_default:
  "l_current_style l = ''default'' \<Longrightarrow>
   style_of (loadNamedStyle file l) ''default'' = Some (l_style (loadNamedStyle file l))"
  by (simp add: style_of_def loadNamedStyle_def split: option.splits)

lemma removeStyle_detaches:
  assumes "l_current_style l \<in> set (styles_of l)" and "l_current_style l \<noteq> name"
  shows "name \<notin> set (styles_of (removeStyle name l))"
proof (cases "name \<in> set (styles_of l)")
  case False
  then show ?thesis by (simp add: removeStyle_def)
next
  case True
  with assms have "length (l_styles l) \<noteq> 1"
    by (cases "l_styles l") (auto simp: styles_of_def)
  with True assms show ?thesis
    by (auto simp: removeStyle_def styles_of_def)
qed

lemmas example_defs =
  example_env_def new_project_def project_with_layer_def project_with_style_def
  project_style_in_use_def project_style_attached_def layer0_def layer0_s1_def
  layer0_attached_def new_layer_def polygons_def landsat_def style_fill_def initial_rows_def
  raster0_def style_multibandcolor_def project_with_raster_def

subsection \<open>The raster statistics refresher\<close>

text \<open>
  C7. For a raster layer and the symbology object built from its renderer's type, as
  \<^verbatim>\<open>layer_update_style\<close> builds it: when the renderer's contrast limits are \<open>None\<close>, or the
  contrast-enhancement algorithm the refresher reads is \<open>NoEnhancement\<close> or
  \<open>UserDefinedEnhancement\<close>, \<^verbatim>\<open>refresh_min_max\<close> returns and the layer, with all its
  bounds, is what it was.
\<close>

theorem refresh_min_max_noop:
  assumes "limits (rl_renderer layer) = Limits_None
           \<or> contrast_algorithm_of (rl_renderer layer) = Some NoEnhancement
           \<or> contrast_algorithm_of (rl_renderer layer) = Some UserDefinedEnhancement"
  shows "refresh_min_max (init (renderer_type (rl_renderer layer))) layer = Inr layer"
  using assms
  by (cases "rl_renderer layer")
     (auto simp: refresh_min_max_def type_def init_def renderer_type_def contrast_algorithm_of_def
        refresh_min_max_singlebandgray_def refresh_min_max_multibandcolor_def
        refresh_min_max_singlebandpseudocolor_def
        split: option.splits)

theorem refresh_min_max_noop_witness:
  "contrast_algorithm_of (rl_renderer gray_layer) = Some NoEnhancement
   \<and> limits (rl_renderer gray_layer) = MinMax
   \<and> refresh_min_max (init (renderer_type (rl_renderer gray_layer))) gray_layer = Inr gray_layer"
proof -
  have alg: "contrast_algorithm_of (rl_renderer gray_layer) = Some NoEnhancement"
    by (simp add: contrast_algorithm_of_def rl_renderer_def gray_layer_def gray_style_def)
  have lims: "limits (rl_renderer gray_layer) = MinMax"
    by (simp add: limits_def rl_renderer_def gray_layer_def gray_style_def)
  from alg lims refresh_min_max_noop [of gray_layer] show ?thesis
    by simp
qed

subsection \<open>Project creation\<close>

text \<open>
  C9. On a project that is already there (its directory exists, filesystem backend),
  \<^verbatim>\<open>create\<close> hands back the bare boolean \<^verbatim>\<open>False\<close>, not a pair, and changes nothing.
\<close>

theorem create_on_present_returns_bare_bool:
  "create (e\<lparr>postgresql := False\<rparr>) (st\<lparr>project_dir_exists := True\<rparr>) author
     = (Bool False, st\<lparr>project_dir_exists := True\<rparr>)"
  by (simp add: create_def exists_def)

text \<open>
  The request handler never lets \<^verbatim>\<open>create\<close> see such a project: it answers the error
  itself.
\<close>

lemma project_add_on_present:
  "fst (exists e st) \<Longrightarrow>
   project_add e st data = (Error415 (Exception ''Project already exists''), snd (exists e st))"
  by (simp add: project_add_def split_def)

subsection \<open>The symbology codec\<close>

text \<open>
  The style \<open>pseudo_band2\<close> is what \<^verbatim>\<open>add_style\<close> stores for a pseudocolor symbology on
  band 2.
\<close>

lemma add_style_pseudo_band2:
  "add_style example_env new_project ''s1'' ''raster'' pseudo_band2_symbology (JObj [])
     = (Inr (True, []),
        new_project\<lparr>style_files := (style_files new_project)(''s1'' \<mapsto> RasterStyle pseudo_band2)\<rparr>)"
  by (simp add: add_style_def layer_type_def lower_def lower_char_def add_style_raster_def
        save_def py_in_def py_getitem_def py_int_def c_int_def load_def load_band_def init_def
        type_def renderer_type_def load_singlebandpseudocolor_properties_def
        config_rendering_def int_setting_def setRenderer_def pseudo_band2_def
        pseudo_band2_symbology_def example_env_def new_pseudo_def)

text \<open>
  C2. The round trip fails on that style: its encoding has an empty \<^verbatim>\<open>properties\<close>
  object, and decoding the encoding stores a pseudocolor style on band 1.
\<close>

theorem pseudocolor_round_trip_loses_band:
  "style_to_json ''s1'' pseudo_band2 =
     Inr (JObj [(''name'', JStr ''s1''), (''type'', JStr ''raster''),
                (''symbology'', JObj [(''type'', JStr ''singlebandpseudocolor''),
                                      (''properties'', JObj [])]),
                (''rendering'', JObj [(''brightness'', JInt 0), (''contrast'', JInt 0),
                                      (''gamma'', JFloat (Float 1)), (''saturation'', JInt 0)])],
          [])
   \<and> add_style example_env new_project ''s1'' ''raster''
        (JObj [(''type'', JStr ''singlebandpseudocolor''), (''properties'', JObj [])])
        (JObj [(''brightness'', JInt 0), (''contrast'', JInt 0),
               (''gamma'', JFloat (Float 1)), (''saturation'', JInt 0)])
      = (Inr (True, []),
         new_project\<lparr>style_files := (style_files new_project)
            (''s1'' \<mapsto> RasterStyle (pseudo_band2\<lparr>rs_renderer := Pseudo (new_pseudo\<lparr>band := 1\<rparr>)\<rparr>))\<rparr>)
   \<and> pseudo_band2\<lparr>rs_renderer := Pseudo (new_pseudo\<lparr>band := 1\<rparr>)\<rparr> \<noteq> pseudo_band2"
  by (simp add: style_to_json_def singlebandpseudocolor_properties_def
        add_style_def layer_type_def lower_def lower_char_def add_style_raster_def
        save_def py_in_def py_getitem_def py_int_def py_float_def c_int_def load_def init_def
        type_def renderer_type_def load_singlebandpseudocolor_properties_def
        config_rendering_def int_setting_def setRenderer_def pseudo_band2_def
        example_env_def new_pseudo_def)

subsection \<open>Removing a layer\<close>

text \<open>
  C4, as the code has it. When the descriptor write succeeds the layer is gone from the
  descriptor. Without cache mirroring the result is the result of the descriptor write.
  With cache mirroring, a mirror that cannot be read makes \<^verbatim>\<open>remove_layer\<close> return
  \<^verbatim>\<open>False\<close>, and the state is the one the descriptor write has left.
\<close>

theorem remove_layer_result:
  "(write_ok e \<longrightarrow>
      layers (snd (remove_layer e st name)) = filter (\<lambda>n. n \<noteq> name) (layers st))
   \<and> (\<not> mapproxy_enabled e \<longrightarrow> fst (remove_layer e st name) = write_ok e)
   \<and> (mapproxy_enabled e \<and> \<not> fst (mp_read e) \<longrightarrow>
        \<not> fst (remove_layer e st name)
        \<and> snd (remove_layer e st name) =
            snd (project_write e
                   ((read st)\<lparr>mapLayers := filter (\<lambda>l. l_name l \<noteq> name) (mapLayers (read st))\<rparr>)
                   st))"
  by (auto simp: remove_layer_def Let_def project_write_def layers_def read_def mp_retract_def
        filter_map comp_def split: prod.splits)

theorem remove_layer_result_witness:
  "layers (snd (remove_layer example_env project_with_layer ''layer0'')) = []
   \<and> fst (remove_layer example_env project_with_layer ''layer0'')
   \<and> \<not> fst (remove_layer
              (example_env\<lparr>mapproxy_enabled := True, mp_read := (False, ''no configuration'')\<rparr>)
              project_with_layer ''layer0'')"
proof -
  have a: "write_ok example_env" and b: "\<not> mapproxy_enabled example_env"
    by (simp_all add: example_env_def)
  have c: "layers project_with_layer = [''layer0'']"
    by (simp add: layers_def read_def example_defs)
  from a b c remove_layer_result [of example_env project_with_layer "''layer0''"]
       remove_layer_result
         [of "example_env\<lparr>mapproxy_enabled := True, mp_read := (False, ''no configuration'')\<rparr>"
             project_with_layer "''layer0''"]
  show ?thesis by simp
qed

text \<open>
  The claim as stated fails: the descriptor write succeeds, the mirror cannot be read,
  and \<^verbatim>\<open>remove_layer\<close> reports failure.
\<close>

theorem remove_layer_mirror_failure_reported:
  "fst (project_write
          (example_env\<lparr>mapproxy_enabled := True, mp_read := (False, ''no configuration'')\<rparr>)
          ((read project_with_layer)\<lparr>mapLayers := []\<rparr>) project_with_layer)
   \<and> \<not> fst (remove_layer
              (example_env\<lparr>mapproxy_enabled := True, mp_read := (False, ''no configuration'')\<rparr>)
              project_with_layer ''layer0'')"
  by (simp add: remove_layer_def Let_def project_write_def read_def example_defs)

subsection \<open>Removing a style\<close>

text \<open>
  C3, as the code has it. A name that is no stored style is refused and nothing changes.
  For a stored style: if a layer has it as its current style, \<^verbatim>\<open>remove_style\<close> fails
  with the message naming such a layer and nothing changes; otherwise it succeeds, the
  stored blob is deleted and, when the descriptor write succeeds and every layer's current
  style is among its styles, no layer has the style attached any more.
\<close>

theorem remove_style_outcome:
  "(name \<notin> styles st \<longrightarrow>
      remove_style e st name =
        ((False, ''Style '' @ [CHR 0x27] @ name @ [CHR 0x27] @ '' does not exist''), st))
   \<and> (name \<in> styles st \<longrightarrow>
        (if \<exists>l \<in> set (mapLayers (read st)). l_current_style l = name
         then \<exists>l \<in> set (mapLayers (read st)).
                remove_style e st name = ((False, ''Style is used by '' @ l_name l), st)
         else fst (remove_style e st name) = (True, [])
              \<and> name \<notin> styles (snd (remove_style e st name))
              \<and> (write_ok e
                   \<and> (\<forall>l \<in> set (mapLayers (read st)). l_current_style l \<in> set (styles_of l))
                  \<longrightarrow> (\<forall>l \<in> set (mapLayers (read (snd (remove_style e st name)))).
                         name \<notin> set (styles_of l)))))"
proof (intro conjI impI)
  assume "name \<notin> styles st"
  then show "remove_style e st name =
        ((False, ''Style '' @ [CHR 0x27] @ name @ [CHR 0x27] @ '' does not exist''), st)"
    by (simp add: remove_style_def)
next
  assume stored: "name \<in> styles st"
  show "if \<exists>l \<in> set (mapLayers (read st)). l_current_style l = name
         then \<exists>l \<in> set (mapLayers (read st)).
                remove_style e st name = ((False, ''Style is used by '' @ l_name l), st)
         else fst (remove_style e st name) = (True, [])
              \<and> name \<notin> styles (snd (remove_style e st name))
              \<and> (write_ok e
                   \<and> (\<forall>l \<in> set (mapLayers (read st)). l_current_style l \<in> set (styles_of l))
                  \<longrightarrow> (\<forall>l \<in> set (mapLayers (read (snd (remove_style e st name)))).
                         name \<notin> set (styles_of l)))"
  proof (cases "find (\<lambda>layer. name = l_current_style layer) (mapLayers (read st))")
    case None
    then have nouse: "\<forall>l \<in> set (mapLayers (read st)). l_current_style l \<noteq> name"
      by (auto simp: find_None_iff_all)
    have r: "remove_style e st name =
       ((True, []),
        snd (project_write e
               ((read st)\<lparr>mapLayers := map (removeStyle name) (mapLayers (read st))\<rparr>)
               (st\<lparr>style_files := (style_files st)(name := None)\<rparr>)))"
      using stored None by (simp add: remove_style_def Let_def)
    have gone: "name \<notin> styles (snd (remove_style e st name))"
      by (simp add: r project_write_def styles_def)
    have detached:
      "\<forall>l \<in> set (mapLayers (read (snd (remove_style e st name)))). name \<notin> set (styles_of l)"
      if "write_ok e"
        and "\<forall>l \<in> set (mapLayers (read st)). l_current_style l \<in> set (styles_of l)"
      using that nouse by (auto simp: r project_write_def read_def removeStyle_detaches)
    from nouse gone detached show ?thesis by (auto simp: r)
  next
    case (Some l)
    then have "l \<in> set (mapLayers (read st))" and "l_current_style l = name"
      by (auto simp: find_Some_iff in_set_conv_nth)
    moreover have "remove_style e st name = ((False, ''Style is used by '' @ l_name l), st)"
      using stored Some by (simp add: remove_style_def Let_def)
    ultimately show ?thesis by auto
  qed
qed

theorem remove_style_outcome_witness:
  "remove_style example_env new_project ''s1'' =
     ((False, ''Style '' @ [CHR 0x27] @ ''s1'' @ [CHR 0x27] @ '' does not exist''), new_project)
   \<and> remove_style example_env project_style_in_use ''s1'' =
       ((False, ''Style is used by layer0''), project_style_in_use)
   \<and> fst (remove_style example_env project_style_attached ''s1'') = (True, [])
   \<and> ''s1'' \<notin> styles (snd (remove_style example_env project_style_attached ''s1''))
   \<and> list_all (\<lambda>l. ''s1'' \<notin> set (styles_of l))
        (mapLayers (read (snd (remove_style example_env project_style_attached ''s1''))))"
proof -
  have a: "''s1'' \<notin> styles new_project"
    by (simp add: styles_def example_defs)
  have b: "''s1'' \<in> styles project_style_in_use" "mapLayers (read project_style_in_use) = [layer0_s1]"
    "l_current_style layer0_s1 = ''s1''" "l_name layer0_s1 = ''layer0''"
    by (simp_all add: styles_def read_def example_defs)
  have c: "''s1'' \<in> styles project_style_attached"
    "mapLayers (read project_style_attached) = [layer0_attached]"
    "l_current_style layer0_attached = ''default''"
    "styles_of layer0_attached = [''default'', ''s1'']"
    "write_ok example_env"
    by (simp_all add: styles_def styles_of_def read_def example_defs)
  from a remove_style_outcome [of "''s1''" new_project example_env]
  have 1: "remove_style example_env new_project ''s1'' =
     ((False, ''Style '' @ [CHR 0x27] @ ''s1'' @ [CHR 0x27] @ '' does not exist''), new_project)"
    by simp
  from b remove_style_outcome [of "''s1''" project_style_in_use example_env]
  have 2: "remove_style example_env project_style_in_use ''s1'' =
       ((False, ''Style is used by layer0''), project_style_in_use)"
    by simp
  from c remove_style_outcome [of "''s1''" project_style_attached example_env]
  have 3: "fst (remove_style example_env project_style_attached ''s1'') = (True, [])
   \<and> ''s1'' \<notin> styles (snd (remove_style example_env project_style_attached ''s1''))
   \<and> list_all (\<lambda>l. ''s1'' \<notin> set (styles_of l))
        (mapLayers (read (snd (remove_style example_env project_style_attached ''s1''))))"
    by (simp add: list_all_iff)
  from 1 2 3 show ?thesis by simp
qed

text \<open>
  The claim as stated fails: no layer has \<^verbatim>\<open>s1\<close> as its current style, and
  \<^verbatim>\<open>remove_style\<close> does not succeed, because \<^verbatim>\<open>s1\<close> is no stored style.
\<close>

theorem remove_style_unknown_name_fails:
  "mapLayers (read new_project) = []
   \<and> fst (remove_style example_env new_project ''s1'') =
       (False, ''Style '' @ [CHR 0x27] @ ''s1'' @ [CHR 0x27] @ '' does not exist'')"
  by (simp add: remove_style_def styles_def read_def example_defs)

subsection \<open>Applying a style\<close>

text \<open>
  Attaching a style that is not yet attached and making it current, on a layer that has
  the style \<^verbatim>\<open>default\<close> only.
\<close>

lemma layer_update_style_attach:
  assumes found: "mapLayersByName (read st) (strip layer_name) = layer # others"
      and only_default: "styles_of layer = [''default'']"
      and cur: "l_current_style layer = ''default''"
      and new: "style_name \<noteq> ''default''"
      and w: "write_ok e"
  shows "(l_type layer = Vector \<longrightarrow>
            fst (layer_update_style e st layer_name style_name True) = Inr (True, []))
       \<and> (\<forall>r. fst (layer_update_style e st layer_name style_name True) = Inr r \<longrightarrow>
             r = (True, [])
             \<and> style_files (snd (layer_update_style e st layer_name style_name True))
                 = style_files st
             \<and> (\<exists>layer'.
                   mapLayersByName
                     (read (snd (layer_update_style e st layer_name style_name True)))
                     (strip layer_name) = layer' # others
                   \<and> l_current_style layer' = style_name
                   \<and> styles_of layer' = [''default'', style_name]))"
proof -
  define layer1 where
    "layer1 = layer\<lparr>l_styles := l_styles layer @
       [(style_name, Some (l_style (loadNamedStyle (style_files st style_name) layer)))]\<rparr>"
  define layer2 where "layer2 = setCurrentStyle style_name layer1"
  define outcome where
    "outcome = (if l_type layer2 = Raster then refresh_symbology e layer2 else Inr layer2)"
  have f: "filter (\<lambda>l. l_name l = strip layer_name) (mapLayers (read st)) = layer # others"
    using found by (simp add: mapLayersByName_def)
  have nm: "l_name layer = strip layer_name"
    using f by (metis (mono_tags, lifting) filter_eq_ConsD)
  have a: "addStyle style_name
             (style_of (loadNamedStyle (style_files st style_name) layer) ''default'') layer
           = layer1"
    using only_default cur new
    by (simp add: layer1_def style_of_loaded_default addStyle_new)
  have names1: "styles_of layer1 = [''default'', style_name]"
    using only_default by (simp add: layer1_def styles_of_def)
  have names2: "styles_of layer2 = [''default'', style_name]"
    by (simp add: layer2_def names1)
  have cur2: "l_current_style layer2 = style_name"
    by (simp add: layer2_def current_setCurrentStyle names1)
  have nm2: "l_name layer2 = strip layer_name"
    by (simp add: layer2_def layer1_def nm)
  have ty2: "l_type layer2 = l_type layer"
    by (simp add: layer2_def layer1_def)
  have unfold: "layer_update_style e st layer_name style_name True =
      (case outcome of
         Inl err \<Rightarrow> (Inl err, st)
       | Inr layer3 \<Rightarrow>
           (Inr (True, []),
            st\<lparr>descriptor := Some ((read st)\<lparr>mapLayers :=
                 update_first (\<lambda>l. l_name l = strip layer_name) layer3
                   (mapLayers (read st))\<rparr>)\<rparr>))"
    using found only_default new w a
    by (simp add: layer_update_style_def mp_clear_cache_def Let_def outcome_def layer2_def
          project_write_def split: sum.splits)
  have vec: "l_type layer = Vector \<longrightarrow>
               fst (layer_update_style e st layer_name style_name True) = Inr (True, [])"
    by (simp add: unfold outcome_def ty2)
  have post: "r = (True, [])
             \<and> style_files (snd (layer_update_style e st layer_name style_name True))
                 = style_files st
             \<and> (\<exists>layer'.
                   mapLayersByName
                     (read (snd (layer_update_style e st layer_name style_name True)))
                     (strip layer_name) = layer' # others
                   \<and> l_current_style layer' = style_name
                   \<and> styles_of layer' = [''default'', style_name])"
    if ret: "fst (layer_update_style e st layer_name style_name True) = Inr r" for r
  proof -
    from ret obtain layer3 where o: "outcome = Inr layer3"
      by (cases outcome) (auto simp: unfold)
    have keep: "l_name layer3 = strip layer_name \<and> l_current_style layer3 = style_name
                \<and> styles_of layer3 = [''default'', style_name]"
    proof (cases "l_type layer2 = Raster")
      case True
      with o have "refresh_symbology e layer2 = Inr layer3" by (simp add: outcome_def)
      from refresh_symbology_keeps [OF this] show ?thesis by (simp add: nm2 cur2 names2)
    next
      case False
      with o have "layer3 = layer2" by (simp add: outcome_def)
      then show ?thesis by (simp add: nm2 cur2 names2)
    qed
    have "mapLayersByName (read (snd (layer_update_style e st layer_name style_name True)))
            (strip layer_name) = layer3 # others"
      using filter_update_first [OF f, of layer3] keep
      by (simp add: unfold o read_def mapLayersByName_def)
    with ret keep show ?thesis by (auto simp: unfold o)
  qed
  from vec post show ?thesis by blast
qed

text \<open>The same call with the style \<^verbatim>\<open>default\<close> itself, on a vector layer.\<close>

lemma layer_update_style_default_current:
  assumes found: "mapLayersByName (read st) (strip layer_name) = layer # others"
      and only_default: "styles_of layer = [''default'']"
      and cur: "l_current_style layer = ''default''"
      and vec: "l_type layer = Vector"
      and w: "write_ok e"
  shows "fst (layer_update_style e st layer_name ''default'' True) = Inr (True, [])
       \<and> mapLayersByName (read (snd (layer_update_style e st layer_name ''default'' True)))
            (strip layer_name) = layer # others"
proof -
  have f: "filter (\<lambda>l. l_name l = strip layer_name) (mapLayers (read st)) = layer # others"
    using found by (simp add: mapLayersByName_def)
  have nm: "l_name layer = strip layer_name"
    using f by (metis (mono_tags, lifting) filter_eq_ConsD)
  have s: "setCurrentStyle ''default'' layer = layer"
    using only_default cur by (simp add: setCurrentStyle_def)
  show ?thesis
    using found only_default vec w s filter_update_first [OF f, of layer] nm
    by (simp add: layer_update_style_def mp_clear_cache_def Let_def project_write_def read_def
          mapLayersByName_def)
qed


lemma strip_layer0: "strip ''layer0'' = ''layer0''"
  by (simp add: strip_def is_space_def)

text \<open>
  Scenario B of the specification: the multi-band style of the tests is stored as
  \<open>style_multibandcolor\<close>.
\<close>

lemma add_style_multibandcolor:
  "add_style example_env new_project ''s1'' ''raster''
     (JObj [(''type'', JStr ''multibandcolor''),
            (''properties'', JObj [(''red'', JObj [(''band'', JInt 1)]),
                                   (''green'', JObj [(''band'', JInt 1)]),
                                   (''blue'', JObj [(''band'', JInt 1)])])])
     (JObj [(''brightness'', JInt 10), (''gamma'', JFloat (Float 1)), (''contrast'', JInt 3),
            (''saturation'', JInt 2)])
   = (Inr (True, []),
      new_project\<lparr>style_files := (style_files new_project)
                      (''s1'' \<mapsto> RasterStyle style_multibandcolor)\<rparr>)"
  by (simp add: add_style_def layer_type_def lower_def lower_char_def add_style_raster_def
        save_def py_in_def py_getitem_def py_int_def py_float_def c_int_def load_def load_band_def
        init_def type_def renderer_type_def load_multibandcolor_properties_def
        config_rendering_def int_setting_def setRenderer_def style_multibandcolor_def
        example_env_def new_multi_def)



subsection \<open>Storing a style\<close>

text \<open>
  The state enters \<^verbatim>\<open>add_style\<close> only in the final save: what is saved, returned or
  raised is the same from every state.
\<close>

lemma add_style_is_save:
  "\<exists>m. \<forall>st. add_style e st name ty symbology rendering =
     (case layer_type ty of None \<Rightarrow> (Inr (False, ''Invalid layer type''), st) | Some _ \<Rightarrow> save st name m)"
  by (cases "layer_type ty"; cases "the (layer_type ty)")
     (auto simp: add_style_def add_style_vector_def add_style_raster_def)

text \<open>
  C10. Let the symbology be valid, that is, accepted by \<^verbatim>\<open>add_style\<close> under this name
  in some state, and let a style be stored under the name. Then \<^verbatim>\<open>add_style\<close> succeeds
  and the style stored under the name is the new one, the one a first \<^verbatim>\<open>add_style\<close>
  stores; the rest of the state is what it was.
\<close>

theorem add_style_overwrites:
  assumes valid: "fst (add_style e st0 name ty symbology rendering) = Inr (True, [])"
      and stored: "style_files st name = Some old"
  shows "\<exists>blob. add_style e st name ty symbology rendering
                  = (Inr (True, []), st\<lparr>style_files := (style_files st)(name \<mapsto> blob)\<rparr>)
              \<and> style_files (snd (add_style e st0 name ty symbology rendering)) name = Some blob"
proof -
  from add_style_is_save [of e name ty symbology rendering] obtain m where
    m: "\<And>s. add_style e s name ty symbology rendering =
     (case layer_type ty of None \<Rightarrow> (Inr (False, ''Invalid layer type''), s) | Some _ \<Rightarrow> save s name m)"
    by blast
  from valid m [of st0] obtain blob where b: "m = Inr (Inr blob)" and t: "layer_type ty \<noteq> None"
    by (auto simp: save_def split: option.splits sum.splits)
  from b t m [of st] m [of st0] show ?thesis
    by (auto simp: save_def)
qed

lemma layer_type_vector: "layer_type ''vector'' = Some Vector"
  by (simp add: layer_type_def lower_def lower_char_def)

theorem add_style_overwrites_witness:
  "style_files project_with_style ''s1'' = Some style_fill
   \<and> style_fill \<noteq> style_line
   \<and> add_style example_env project_with_style ''s1'' ''vector'' line_symbology (JObj [])
       = (Inr (True, []),
          project_with_style\<lparr>style_files := (style_files project_with_style)(''s1'' \<mapsto> style_line)\<rparr>)"
proof -
  have v: "add_style example_env new_project ''s1'' ''vector'' line_symbology (JObj [])
           = (Inr (True, []), new_project\<lparr>style_files := (style_files new_project)(''s1'' \<mapsto> style_line)\<rparr>)"
    by (simp add: add_style_def layer_type_vector add_style_vector_def save_def py_in_def
          py_getitem_def create_single_symbol_style_def line_symbology_def style_line_def)
  have s: "style_files project_with_style ''s1'' = Some style_fill"
    by (simp add: example_defs)
  have d: "style_fill \<noteq> style_line"
    by (simp add: style_fill_def style_line_def)
  from v have "fst (add_style example_env new_project ''s1'' ''vector'' line_symbology (JObj []))
                 = Inr (True, [])"
    by simp
  from add_style_overwrites [OF this s] v s d show ?thesis
    by auto
qed

subsection \<open>Marker colours\<close>




lemma categorized_marker:
  "add_style_vector e st name (categorized_marker_symbology c p sz) (JObj []) =
     (case marker_colors (split_on CHR '','' c) of
        Inl err \<Rightarrow> (Inl err, st)
      | Inr (col, stroke) \<Rightarrow>
          (Inr (True, []),
           st\<lparr>style_files := (style_files st)
                 (name \<mapsto> VectorStyle (QgsCategorizedSymbolRenderer ''kind''
                                          [(JStr ''a'', marker p col stroke sz)]))\<rparr>))"
  by (simp add: add_style_vector_def save_def py_in_def py_getitem_def py_iter_def
        categorized_marker_symbology_def create_categorized_style_def categorized_marker_def
        str_split_comma_def q_string_def c_double_def marker_def
        bnd_def split: sum.splits)









subsection \<open>Adding a layer\<close>

lemma init_layer_props:
  "init_layer e t ds name ov dt = Inr (Inr lyr) \<Longrightarrow>
     l_name lyr = name \<and> l_type lyr = t \<and> l_current_style lyr = ''default''
     \<and> l_styles lyr = [(''default'', None)]"
  by (cases t)
     (auto simp: init_layer_def new_layer_def stretch_def Let_def bnd_def
           split: sum.splits if_splits prod.splits style_blob.splits)

lemma add_layer_mapproxy_keeps:
  "descriptor (snd (add_layer_mapproxy e st lyr name t dt)) = descriptor st
   \<and> style_files (snd (add_layer_mapproxy e st lyr name t dt)) = style_files st
   \<and> styles_default (snd (add_layer_mapproxy e st lyr name t dt)) = styles_default st"
  by (auto simp: add_layer_mapproxy_def mp_store_def Let_def split: sum.splits prod.splits)

lemma add_layer_mapproxy_disabled:
  "\<not> mapproxy_enabled e \<Longrightarrow> add_layer_mapproxy e st lyr name t dt = (Inr (True, []), st)"
  by (simp add: add_layer_mapproxy_def)

lemma sqlite_db_keeps [simp]:
  "descriptor (sqlite_db st) = descriptor st" "style_files (sqlite_db st) = style_files st"
  "rows (sqlite_db st) = rows st"
  by (simp_all add: sqlite_db_def rows_def split: option.splits)

lemma read_sqlite_db [simp]: "read (sqlite_db st) = read st"
  by (simp add: read_def)

lemma style_update_polygon:
  assumes "\<not> has_quote s" and "map_of (rows st) ''polygon'' \<noteq> None"
  shows "fst (style_update st ''polygon'' s) = Inr ()"
    and "descriptor (snd (style_update st ''polygon'' s)) = descriptor st"
    and "map_of (rows (snd (style_update st ''polygon'' s))) ''polygon'' = Some s"
proof -
  have q: "\<not> has_quote ''polygon''" by (simp add: has_quote_def)
  have m: "map_of (map (\<lambda>(g, s'). if g = k then (g, s) else (g, s')) xs) k = Some s"
    if "map_of xs k \<noteq> None" for xs :: "(string \<times> string) list" and k
    using that by (induction xs) (auto split: if_splits)
  show "fst (style_update st ''polygon'' s) = Inr ()"
    using assms q by (simp add: style_update_def Let_def)
  show "descriptor (snd (style_update st ''polygon'' s)) = descriptor st"
    using assms q by (simp add: style_update_def Let_def)
  show "map_of (rows (snd (style_update st ''polygon'' s))) ''polygon'' = Some s"
    using assms q m [of "rows st" "''polygon''"] by (simp add: style_update_def Let_def rows_def)
qed

text \<open>
  C6. Let the default style of polygons be set to \<open>s\<close> (a name without a quote, in a
  table that has its polygon row), and let a vector layer with polygon geometry be added
  then: its type is \<^verbatim>\<open>vector\<close>, its name is new and has no surrounding whitespace, the
  datasource opens as a valid layer, the descriptor write succeeds. Then the update
  succeeds, the layer is registered, its style set contains \<^verbatim>\<open>default\<close> and its current
  style is \<open>s\<close>; without cache mirroring \<^verbatim>\<open>add_layer\<close> returns \<^verbatim>\<open>(True, "")\<close>.
\<close>

theorem add_layer_applies_default_style:
  assumes ty: "layer_type ty = Some Vector"
      and fresh: "name \<notin> set (layers st)"
      and stripped: "strip name = name"
      and opened: "init_layer e Vector datasource name overview datetime = Inr (Inr lyr)"
      and valid: "l_valid lyr"
      and polygon: "lower (l_geometry lyr) = ''polygon''"
      and quote: "\<not> has_quote s"
      and row: "map_of (rows st) ''polygon'' \<noteq> None"
      and w: "write_ok e"
  shows "fst (style_update st ''polygon'' s) = Inr ()
       \<and> (\<not> mapproxy_enabled e \<longrightarrow>
            fst (add_layer e (snd (style_update st ''polygon'' s)) datasource ty name epsg_code
                   overview datetime) = Inr (True, []))
       \<and> (\<exists>l. mapLayersByName
                 (read (snd (add_layer e (snd (style_update st ''polygon'' s)) datasource ty name
                               epsg_code overview datetime))) name = [l]
              \<and> l_current_style l = s \<and> ''default'' \<in> set (styles_of l))"
proof -
  define st1 where "st1 = snd (style_update st ''polygon'' s)"
  define lyr1 where "lyr1 = (if epsg_code > 0 then lyr\<lparr>l_authid := crs_authid e epsg_code\<rparr> else lyr)"
  define st2 where
    "st2 = st1\<lparr>descriptor := Some ((read st1)\<lparr>mapLayers := mapLayers (read st1) @ [lyr1]\<rparr>)\<rparr>"
  define st3 where "st3 = sqlite_db st2"
  define st4 where "st4 = snd (layer_update_style e st3 name s True)"
  note upd = style_update_polygon [OF quote row]
  have d1: "read st1 = read st" using upd(2) by (simp add: st1_def read_def)
  have fresh1: "name \<notin> set (layers st1)" using fresh d1 by (simp add: layers_def)
  from init_layer_props [OF opened]
  have p: "l_name lyr1 = name" "l_type lyr1 = Vector" "l_current_style lyr1 = ''default''"
    "styles_of lyr1 = [''default'']" "l_valid lyr1" "lower (l_geometry lyr1) = ''polygon''"
    using valid polygon by (simp_all add: lyr1_def styles_of_def)
  have r3: "read st3 = (read st1)\<lparr>mapLayers := mapLayers (read st1) @ [lyr1]\<rparr>"
    by (simp add: st3_def st2_def read_def)
  have found: "mapLayersByName (read st3) (strip name) = lyr1 # []"
    using fresh1 p(1)
    by (auto simp: r3 stripped mapLayersByName_def layers_def filter_empty_conv image_iff)
  have sd: "style_default st2 ''polygon'' = (Inr s, st3)"
    using upd(3) by (simp add: style_default_def Let_def has_quote_def st3_def st2_def st1_def rows_def)
  have lus: "fst (layer_update_style e st3 name s True) = Inr (True, [])
             \<and> (\<exists>l. mapLayersByName (read st4) name = [l]
                    \<and> l_current_style l = s \<and> ''default'' \<in> set (styles_of l))"
  proof (cases "s = ''default''")
    case True
    from layer_update_style_default_current [OF found p(4) p(3) p(2) w] p(3) p(4)
    show ?thesis by (simp add: True st4_def stripped)
  next
    case False
    from layer_update_style_attach [OF found p(4) p(3) False w] p(2)
    show ?thesis by (auto simp: st4_def stripped)
  qed
  then obtain r where lus': "layer_update_style e st3 name s True = (Inr r, st4)"
    by (cases "layer_update_style e st3 name s True") (auto simp: st4_def)
  have al: "add_layer e st1 datasource ty name epsg_code overview datetime
              = add_layer_mapproxy e st4 lyr1 name Vector datetime"
    using ty fresh1 opened valid p(5) p(6) w sd lus'
    by (simp add: add_layer_def Let_def project_write_def lyr1_def [symmetric] st2_def [symmetric])
  have rd: "read (snd (add_layer_mapproxy e st4 lyr1 name Vector datetime)) = read st4"
    using add_layer_mapproxy_keeps [of e st4 lyr1 name Vector datetime] by (simp add: read_def)
  from lus upd(1) show ?thesis
    by (simp add: st1_def [symmetric] al rd add_layer_mapproxy_disabled)
qed

lemma init_layer0:
  "init_layer example_env Vector ''data.gpkg|layername=polygons'' ''layer0'' False None
     = Inr (Inr layer0)"
  by (simp add: init_layer_def layer_provider_def layer0_def)

theorem add_layer_applies_default_style_witness:
  "fst (style_update new_project ''polygon'' ''custom'') = Inr ()
   \<and> fst (add_layer example_env (snd (style_update new_project ''polygon'' ''custom''))
            ''data.gpkg|layername=polygons'' ''vector'' ''layer0'' 4326 False None) = Inr (True, [])
   \<and> (\<exists>l. mapLayersByName
             (read (snd (add_layer example_env (snd (style_update new_project ''polygon'' ''custom''))
                           ''data.gpkg|layername=polygons'' ''vector'' ''layer0'' 4326 False None)))
             ''layer0'' = [l]
          \<and> l_current_style l = ''custom'' \<and> ''default'' \<in> set (styles_of l))"
proof -
  have h: "''layer0'' \<notin> set (layers new_project)" "l_valid layer0"
    "lower (l_geometry layer0) = ''polygon''" "\<not> has_quote ''custom''"
    "map_of (rows new_project) ''polygon'' \<noteq> None" "write_ok example_env"
    "\<not> mapproxy_enabled example_env"
    by (simp_all add: layers_def read_def rows_def has_quote_def lower_def lower_char_def
          example_defs)
  from add_layer_applies_default_style
         [OF layer_type_vector h(1) strip_layer0 init_layer0 h(2) h(3) h(4) h(5) h(6), of 4326]
       h(7)
  show ?thesis by blast
qed









end
